theory Spec2Isabelle
  imports Complex_Main "HOL-Library.AList"
begin

section \<open>Left-ventricle segmentation: values\<close>

text \<open>
  The development embeds \<^verbatim>\<open>platipy/imaging/utils/ventricle.py\<close>: the helper
  \<^verbatim>\<open>extract\<close> and the pipeline \<^verbatim>\<open>generate_left_ventricle_segments\<close>.

  Angles are IEEE doubles in the source. They are modelled as reals: every property
  below depends only on the order of angles and on the range of \<^verbatim>\<open>arctan2\<close>.
  Voxel indices are Python integers, modelled as \<open>int\<close>.
\<close>

type_synonym ivec3 = "int \<times> int \<times> int"
type_synonym rvec3 = "real \<times> real \<times> real"

text \<open>
  The working dictionary of the source has string keys (the anatomical labels) and
  integer keys (the segments 1..17).
\<close>

datatype key = Name string | Seg int

text \<open>
  The exceptions a run can end with. \<open>KeyError\<close>, \<open>ValueError\<close> and \<open>IndexError\<close>
  are raised by Python and numpy, \<open>RuntimeError\<close> by the imaging library.
  \<open>MissingStructureError\<close> and \<open>EmptyMaskError\<close> are the error kinds the specification
  names; no statement of the source constructs them.
\<close>

datatype error =
    KeyError key
  | ValueError
  | IndexError
  | TypeError
  | ZeroDivisionError
  | RuntimeError
  | MissingStructureError
  | EmptyMaskError

text \<open>Sequencing of fallible computations: the first exception ends the run.\<close>

definition bindE :: "error + 'a \<Rightarrow> ('a \<Rightarrow> error + 'b) \<Rightarrow> error + 'b" where
  "bindE r f = (case r of Inl e \<Rightarrow> Inl e | Inr x \<Rightarrow> f x)"

fun mapE :: "('a \<Rightarrow> error + 'b) \<Rightarrow> 'a list \<Rightarrow> error + 'b list" where
  "mapE f [] = Inr []"
| "mapE f (x # xs) = bindE (f x) (\<lambda>y. bindE (mapE f xs) (\<lambda>ys. Inr (y # ys)))"

text \<open>Python's \<^verbatim>\<open>int(x)\<close> on a float truncates toward zero.\<close>

definition py_int :: "real \<Rightarrow> int" where
  "py_int r = (if 0 \<le> r then \<lfloor>r\<rfloor> else \<lceil>r\<rceil>)"

text \<open>\<^verbatim>\<open>range(a, b)\<close>: the integers from \<open>a\<close> up to \<open>b - 1\<close>, empty when \<open>b \<le> a\<close>.\<close>

definition py_range :: "int \<Rightarrow> int \<Rightarrow> int list" where
  "py_range a b = [a..b - 1]"

subsection \<open>Images\<close>

text \<open>
  A three-dimensional image: its geometry and its voxel array, indexed \<open>(z, y, x)\<close> as
  the numpy view of the source is. A two-dimensional slice is indexed \<open>(y, x)\<close>.
\<close>

record image =
  img_size :: ivec3
  img_spacing :: rvec3
  img_origin :: rvec3
  img_direction :: "real list"
  img_pix :: "ivec3 \<Rightarrow> int"

record slice =
  sl_size :: "int \<times> int"
  sl_pix :: "int \<times> int \<Rightarrow> int"

definition size_x :: "image \<Rightarrow> int" where
  "size_x im = fst (img_size im)"

definition size_y :: "image \<Rightarrow> int" where
  "size_y im = fst (snd (img_size im))"

definition size_z :: "image \<Rightarrow> int" where
  "size_z im = snd (snd (img_size im))"

text \<open>\<^verbatim>\<open>np.where(arr)\<close>: the indices of the non-zero entries, in row-major order.\<close>

definition where2 :: "slice \<Rightarrow> (int \<times> int) list" where
  "where2 sl =
     concat (map (\<lambda>y. concat (map (\<lambda>x. if sl_pix sl (y, x) \<noteq> 0 then [(y, x)] else [])
                                   [0..fst (sl_size sl) - 1]))
                 [0..snd (sl_size sl) - 1])"

definition where3 :: "image \<Rightarrow> ivec3 list" where
  "where3 im =
     concat (map (\<lambda>z. concat (map (\<lambda>y. concat (map (\<lambda>x.
                   if img_pix im (z, y, x) \<noteq> 0 then [(z, y, x)] else [])
                 [0..size_x im - 1])) [0..size_y im - 1])) [0..size_z im - 1])"

text \<open>
  \<^verbatim>\<open>img[:, :, n]\<close>: the slice at long-axis index \<open>n\<close>. A negative index counts from
  the end; an index outside the image raises \<open>IndexError\<close>.
\<close>

definition slice_at :: "image \<Rightarrow> int \<Rightarrow> error + slice" where
  "slice_at im n =
     (let k = (if n < 0 then n + size_z im else n)
      in if 0 \<le> k \<and> k < size_z im
         then Inr \<lparr>sl_size = (size_x im, size_y im), sl_pix = (\<lambda>(y, x). img_pix im (k, y, x))\<rparr>
         else Inl IndexError)"

text \<open>\<^verbatim>\<open>img[:, :, n] = sl\<close>: overwrite one slice in place.\<close>

definition set_slice :: "image \<Rightarrow> int \<Rightarrow> slice \<Rightarrow> error + image" where
  "set_slice im n sl =
     (let k = (if n < 0 then n + size_z im else n)
      in if 0 \<le> k \<and> k < size_z im
         then Inr (im\<lparr>img_pix := (\<lambda>(z, y, x). if z = k then sl_pix sl (y, x) else img_pix im (z, y, x))\<rparr>)
         else Inl IndexError)"

text \<open>
  The bound of a Python slice \<^verbatim>\<open>a:\<close> or \<^verbatim>\<open>:a\<close> on an axis of length \<open>n\<close>: a negative
  bound counts from the end, and the result is clamped to \<open>0..n\<close>.
\<close>

definition slice_bound :: "int \<Rightarrow> int \<Rightarrow> int" where
  "slice_bound n a = (if a < 0 then max 0 (a + n) else min a n)"

text \<open>\<^verbatim>\<open>img[:, :, a:] = 0\<close> and \<^verbatim>\<open>img[:, :, :a] = 0\<close>.\<close>

definition zero_from :: "image \<Rightarrow> int \<Rightarrow> image" where
  "zero_from im a =
     im\<lparr>img_pix := (\<lambda>(z, y, x). if slice_bound (size_z im) a \<le> z then 0 else img_pix im (z, y, x))\<rparr>"

definition zero_upto :: "image \<Rightarrow> int \<Rightarrow> image" where
  "zero_upto im a =
     im\<lparr>img_pix := (\<lambda>(z, y, x). if z < slice_bound (size_z im) a then 0 else img_pix im (z, y, x))\<rparr>"

text \<open>Voxel-wise arithmetic of the imaging library on geometry-compatible images.\<close>

definition img_add :: "image \<Rightarrow> image \<Rightarrow> image" where
  "img_add a b = a\<lparr>img_pix := (\<lambda>p. img_pix a p + img_pix b p)\<rparr>"

definition img_sub :: "image \<Rightarrow> image \<Rightarrow> image" where
  "img_sub a b = a\<lparr>img_pix := (\<lambda>p. img_pix a p - img_pix b p)\<rparr>"

definition img_scale :: "int \<Rightarrow> image \<Rightarrow> image" where
  "img_scale c a = a\<lparr>img_pix := (\<lambda>p. c * img_pix a p)\<rparr>"

definition img_gt0 :: "image \<Rightarrow> image" where
  "img_gt0 a = a\<lparr>img_pix := (\<lambda>p. if 0 < img_pix a p then 1 else 0)\<rparr>"

definition img_mask :: "image \<Rightarrow> image \<Rightarrow> image" where
  "img_mask a m = a\<lparr>img_pix := (\<lambda>p. if img_pix m p \<noteq> 0 then img_pix a p else 0)\<rparr>"

section \<open>The helper extract\<close>

text \<open>
  \<^verbatim>\<open>
  if cw:
      in_segment_condition = (angles <= angle_min) | (angles >= angle_max)
  else:
      in_segment_condition = (angles <= angle_max) & (angles >= angle_min)
  \<close>
\<close>

definition in_segment_condition :: "bool \<Rightarrow> real \<Rightarrow> real \<Rightarrow> real \<Rightarrow> bool" where
  "in_segment_condition cw angle_min angle_max a =
     (if cw then a \<le> angle_min \<or> a \<ge> angle_max else a \<le> angle_max \<and> a \<ge> angle_min)"

text \<open>
  \<^verbatim>\<open>segment_arr[loc_y[cond], loc_x[cond]] = 1\<close> on a zero array of the template's shape:
  the result is 1 exactly at the positions whose angle satisfies the condition.
\<close>

definition "extract" :: "slice \<Rightarrow> real list \<Rightarrow> real \<Rightarrow> real \<Rightarrow> int list \<Rightarrow> int list \<Rightarrow> bool \<Rightarrow> slice" where
  "extract template_img angles angle_min angle_max loc_x loc_y cw =
     (let sel = map snd (filter (\<lambda>(a, p). in_segment_condition cw angle_min angle_max a)
                                (zip angles (zip loc_y loc_x)))
      in template_img\<lparr>sl_pix := (\<lambda>p. if p \<in> set sel then 1 else 0)\<rparr>)"

section \<open>Axial division\<close>

text \<open>
  \<^verbatim>\<open>
  extent = com_mv - inf_limit_lv
  dc = int(extent / 3)
  apical_extent = inf_limit_lv + dc
  mid_extent = inf_limit_lv + 2 * dc
  basal_extent = com_mv
  \<close>
\<close>

record bands =
  dc :: int
  apical_extent :: int
  mid_extent :: int
  basal_extent :: int

definition axial_bands :: "int \<Rightarrow> int \<Rightarrow> bands" where
  "axial_bands inf_limit_lv com_mv =
     (let extent = com_mv - inf_limit_lv;
          d = py_int (real_of_int extent / 3)
      in \<lparr>dc = d, apical_extent = inf_limit_lv + d, mid_extent = inf_limit_lv + 2 * d,
          basal_extent = com_mv\<rparr>)"

text \<open>The slices each loop of module 4 visits, and the apex cap (segment 17).\<close>

definition apical_slices :: "int \<Rightarrow> int \<Rightarrow> int list" where
  "apical_slices inf_limit_lv com_mv =
     py_range inf_limit_lv (apical_extent (axial_bands inf_limit_lv com_mv))"

definition mid_slices :: "int \<Rightarrow> int \<Rightarrow> int list" where
  "mid_slices inf_limit_lv com_mv =
     py_range (apical_extent (axial_bands inf_limit_lv com_mv))
              (mid_extent (axial_bands inf_limit_lv com_mv))"

definition basal_slices :: "int \<Rightarrow> int \<Rightarrow> int list" where
  "basal_slices inf_limit_lv com_mv =
     py_range (mid_extent (axial_bands inf_limit_lv com_mv))
              (basal_extent (axial_bands inf_limit_lv com_mv))"

definition apex_cap :: "image \<Rightarrow> int \<Rightarrow> image" where
  "apex_cap label_lv_myo inf_limit_lv = zero_from (img_scale 1 label_lv_myo) inf_limit_lv"

section \<open>Polar angles\<close>

text \<open>
  \<^verbatim>\<open>np.arctan2(y, x)\<close> is the argument of the point \<open>(x, y)\<close>, in \<open>(-\<pi>, \<pi>]\<close>, and 0 at
  the origin.
\<close>

definition arctan2 :: "real \<Rightarrow> real \<Rightarrow> real" where
  "arctan2 y x = Arg (Complex x y)"

text \<open>\<^verbatim>\<open>theta[theta < 0] += 2 * np.pi\<close>: one turn is added to each negative angle.\<close>

definition normalise :: "real \<Rightarrow> real" where
  "normalise t = (if t < 0 then t + 2 * pi else t)"

text \<open>
  \<^verbatim>\<open>
  theta = -np.arctan2(loc_y - y_0, loc_x - x_0) - theta_0
  theta[theta < 0] += 2 * np.pi
  \<close>
\<close>

definition voxel_theta :: "real \<Rightarrow> int \<times> int \<Rightarrow> int \<times> int \<Rightarrow> real" where
  "voxel_theta ref com p =
     normalise (- arctan2 (real_of_int (fst p - fst com)) (real_of_int (snd p - snd com)) - ref)"

definition slice_theta :: "real \<Rightarrow> int \<times> int \<Rightarrow> (int \<times> int) list \<Rightarrow> real list" where
  "slice_theta ref com loc = map (voxel_theta ref com) loc"

text \<open>
  The reference angle of the RV insertion uses the opposite orientation of the row axis:
  \<^verbatim>\<open>
  theta_rv = np.arctan2(lv_com_basal_y - loc_rv_basal_y, loc_rv_basal_x - lv_com_basal_x)
  theta_rv[theta_rv < 0] += 2 * np.pi
  \<close>
\<close>

definition rv_angle :: "int \<times> int \<Rightarrow> int \<times> int \<Rightarrow> real" where
  "rv_angle lv_com p =
     normalise (arctan2 (real_of_int (fst lv_com - fst p)) (real_of_int (snd p - snd lv_com)))"

text \<open>\<^verbatim>\<open>arr.min()\<close> raises \<open>ValueError\<close> on an empty array.\<close>

definition np_min :: "'a::linorder list \<Rightarrow> error + 'a" where
  "np_min xs = (case xs of [] \<Rightarrow> Inl ValueError | x # r \<Rightarrow> Inr (fold min r x))"

text \<open>\<^verbatim>\<open>np.median\<close> of a non-empty list.\<close>

definition np_median :: "real list \<Rightarrow> real" where
  "np_median xs =
     (let s = sort xs; n = length xs
      in if odd n then s ! (n div 2) else (s ! (n div 2 - 1) + s ! (n div 2)) / 2)"

text \<open>\<^verbatim>\<open>arr.mean()\<close> of a non-empty list of indices.\<close>

definition np_mean :: "int list \<Rightarrow> real" where
  "np_mean xs = real_of_int (sum_list xs) / real (length xs)"

section \<open>Collaborators\<close>

text \<open>
  The imaging library and the helpers of the repository that are not part of the
  sources at hand (\<^verbatim>\<open>label_to_roi\<close>, \<^verbatim>\<open>crop_to_roi\<close>, \<^verbatim>\<open>get_com\<close>, \<^verbatim>\<open>vector_angle\<close>) are
  parameters of the pipeline. Each may raise; none modifies its arguments, and each
  returns a new object.
\<close>

datatype transform =
    Rigid rvec3 rvec3 real
  | Composite "transform list"
  | Inverse transform

record collab =
  label_to_roi :: "image \<Rightarrow> rvec3 \<Rightarrow> error + (ivec3 \<times> ivec3)"
  crop_to_roi :: "image \<Rightarrow> ivec3 \<Rightarrow> ivec3 \<Rightarrow> error + image"
  vector_angle :: "rvec3 \<Rightarrow> rvec3 \<Rightarrow> real"
  get_com :: "image \<Rightarrow> error + ivec3"
  get_com_slice :: "slice \<Rightarrow> error + (int \<times> int)"
  get_com_real :: "image \<Rightarrow> error + rvec3"
  principal_axis :: "image \<Rightarrow> error + rvec3"
  get_region :: "image \<Rightarrow> error + (ivec3 \<times> ivec3)"
  resample :: "image \<Rightarrow> transform \<Rightarrow> error + image"
  index_to_physical :: "image \<Rightarrow> rvec3 \<Rightarrow> rvec3"
  binary_erode :: "image \<Rightarrow> ivec3 \<Rightarrow> error + image"
  binary_dilate :: "image \<Rightarrow> ivec3 \<Rightarrow> error + image"
  closing :: "image \<Rightarrow> ivec3 \<Rightarrow> error + image"
  paste :: "image \<Rightarrow> image \<Rightarrow> ivec3 \<Rightarrow> ivec3 \<Rightarrow> ivec3 \<Rightarrow> error + image"

record config =
  label_left_ventricle :: string
  label_left_atrium :: string
  label_right_ventricle :: string
  label_mitral_valve :: string
  label_heart :: string
  myocardium_thickness_mm :: real
  hole_fill_mm :: real
  optimiser_tol_degrees :: real
  optimiser_max_iter :: int

section \<open>Reference angles\<close>

text \<open>
  One pass of the loop over \<^verbatim>\<open>np.arange(mid_extent, mid_extent + 5)\<close>: the smallest
  normalised angle of the right-ventricle voxels of slice \<open>z\<close> about the centre of mass of
  the left ventricle on that slice.
\<close>

definition rv_on_slice :: "ivec3 list \<Rightarrow> int \<Rightarrow> (int \<times> int) list" where
  "rv_on_slice loc_rv z = map snd (filter (\<lambda>v. fst v = z) loc_rv)"

definition slice_com :: "collab \<Rightarrow> image \<Rightarrow> int \<Rightarrow> error + (int \<times> int)" where
  "slice_com P im n = bindE (slice_at im n) (get_com_slice P)"

definition rv_insertion :: "collab \<Rightarrow> image \<Rightarrow> ivec3 list \<Rightarrow> int \<Rightarrow> error + real" where
  "rv_insertion P lv loc_rv z =
     bindE (slice_com P lv z) (\<lambda>lv_com.
     np_min (map (rv_angle lv_com) (rv_on_slice loc_rv z)))"

definition basal_theta_0 :: "collab \<Rightarrow> image \<Rightarrow> image \<Rightarrow> int \<Rightarrow> error + real" where
  "basal_theta_0 P lv rv mid_ext =
     bindE (mapE (rv_insertion P lv (where3 rv)) (py_range mid_ext (mid_ext + 5)))
           (\<lambda>theta_rv_insertion. Inr (np_median theta_rv_insertion))"

text \<open>
  \<^verbatim>\<open>np.mean(list, axis=0)\<close> of the per-slice centres of mass. Of an empty list it is a
  scalar, and indexing it raises \<open>IndexError\<close>.
\<close>

definition mean_com :: "(int \<times> int) list \<Rightarrow> error + (real \<times> real)" where
  "mean_com cs =
     (if cs = [] then Inl IndexError else Inr (np_mean (map fst cs), np_mean (map snd cs)))"

definition apical_theta_0 :: "collab \<Rightarrow> image \<Rightarrow> image \<Rightarrow> int list \<Rightarrow> error + real" where
  "apical_theta_0 P lv rv slices =
     bindE (mapE (\<lambda>n. bindE (slice_com P lv n) (\<lambda>l. bindE (slice_com P rv n) (\<lambda>r. Inr (l, r)))) slices)
       (\<lambda>coms.
     bindE (mean_com (map fst coms)) (\<lambda>lv_com_apical.
     bindE (mean_com (map snd coms)) (\<lambda>rv_com_apical.
     Inr (arctan2 (fst lv_com_apical - fst rv_com_apical) (snd rv_com_apical - snd lv_com_apical)))))"

section \<open>Assignment of one slice\<close>

text \<open>
  The four calls of \<^verbatim>\<open>extract\<close> on an apical slice and the six on a mid or basal
  slice, in the order of the source, each with the segment it is written to.
\<close>

definition apical_slice_segments :: "real \<Rightarrow> slice \<Rightarrow> int \<times> int \<Rightarrow> (int \<times> slice) list" where
  "apical_slice_segments theta_0_apical sl com =
     (let loc = where2 sl; loc_y = map fst loc; loc_x = map snd loc;
          theta = slice_theta theta_0_apical com loc
      in [(13, extract sl theta (5 * pi / 4) (7 * pi / 4) loc_x loc_y False),
          (14, extract sl theta (1 * pi / 4) (7 * pi / 4) loc_x loc_y True),
          (15, extract sl theta (1 * pi / 4) (3 * pi / 4) loc_x loc_y False),
          (16, extract sl theta (3 * pi / 4) (5 * pi / 4) loc_x loc_y False)])"

definition mid_slice_segments :: "real \<Rightarrow> slice \<Rightarrow> int \<times> int \<Rightarrow> (int \<times> slice) list" where
  "mid_slice_segments theta_0 sl com =
     (let loc = where2 sl; loc_y = map fst loc; loc_x = map snd loc;
          theta = slice_theta theta_0 com loc
      in [(8, extract sl theta 0 (pi / 3) loc_x loc_y False),
          (9, extract sl theta (1 * pi / 3) (2 * pi / 3) loc_x loc_y False),
          (10, extract sl theta (2 * pi / 3) (3 * pi / 3) loc_x loc_y False),
          (11, extract sl theta (3 * pi / 3) (4 * pi / 3) loc_x loc_y False),
          (12, extract sl theta (4 * pi / 3) (5 * pi / 3) loc_x loc_y False),
          (7, extract sl theta (5 * pi / 3) (2 * pi) loc_x loc_y False)])"

definition basal_slice_segments :: "real \<Rightarrow> slice \<Rightarrow> int \<times> int \<Rightarrow> (int \<times> slice) list" where
  "basal_slice_segments theta_0 sl com =
     (let loc = where2 sl; loc_y = map fst loc; loc_x = map snd loc;
          theta = slice_theta theta_0 com loc
      in [(2, extract sl theta 0 (pi / 3) loc_x loc_y False),
          (3, extract sl theta (1 * pi / 3) (2 * pi / 3) loc_x loc_y False),
          (4, extract sl theta (2 * pi / 3) (3 * pi / 3) loc_x loc_y False),
          (5, extract sl theta (3 * pi / 3) (4 * pi / 3) loc_x loc_y False),
          (6, extract sl theta (4 * pi / 3) (5 * pi / 3) loc_x loc_y False),
          (1, extract sl theta (5 * pi / 3) (2 * pi) loc_x loc_y False)])"

text \<open>The voxels of a slice that a segment holds after the assignment.\<close>

definition in_segment :: "(int \<times> slice) list \<Rightarrow> int \<Rightarrow> int \<times> int \<Rightarrow> bool" where
  "in_segment segs k p = (case map_of segs k of None \<Rightarrow> False | Some s \<Rightarrow> sl_pix s p \<noteq> 0)"

text \<open>
  The windows of the three bands as a table: for each call of \<^verbatim>\<open>extract\<close> the segment, the
  flag \<^verbatim>\<open>cw\<close> and the two bounds, in the order of the source.
\<close>

type_synonym window = "int \<times> bool \<times> real \<times> real"

definition apical_windows :: "window list" where
  "apical_windows =
     [(13, False, 5 * pi / 4, 7 * pi / 4), (14, True, 1 * pi / 4, 7 * pi / 4),
      (15, False, 1 * pi / 4, 3 * pi / 4), (16, False, 3 * pi / 4, 5 * pi / 4)]"

definition mid_windows :: "window list" where
  "mid_windows =
     [(8, False, 0, pi / 3), (9, False, 1 * pi / 3, 2 * pi / 3),
      (10, False, 2 * pi / 3, 3 * pi / 3), (11, False, 3 * pi / 3, 4 * pi / 3),
      (12, False, 4 * pi / 3, 5 * pi / 3), (7, False, 5 * pi / 3, 2 * pi)]"

definition basal_windows :: "window list" where
  "basal_windows =
     [(2, False, 0, pi / 3), (3, False, 1 * pi / 3, 2 * pi / 3),
      (4, False, 2 * pi / 3, 3 * pi / 3), (5, False, 3 * pi / 3, 4 * pi / 3),
      (6, False, 4 * pi / 3, 5 * pi / 3), (1, False, 5 * pi / 3, 2 * pi)]"

definition selects :: "real \<Rightarrow> window \<Rightarrow> bool" where
  "selects t w = (case w of (k, cw, angle_min, angle_max) \<Rightarrow> in_segment_condition cw angle_min angle_max t)"

definition window_bounds :: "window list \<Rightarrow> real set" where
  "window_bounds ws = set (map (\<lambda>w. fst (snd (snd w))) ws) \<union> set (map (\<lambda>w. snd (snd (snd w))) ws)"

definition window_segments :: "window list \<Rightarrow> real \<Rightarrow> slice \<Rightarrow> int \<times> int \<Rightarrow> (int \<times> slice) list" where
  "window_segments ws ref sl com =
     map (\<lambda>w. case w of (k, cw, angle_min, angle_max) \<Rightarrow>
            (k, extract sl (slice_theta ref com (where2 sl)) angle_min angle_max
                  (map snd (where2 sl)) (map fst (where2 sl)) cw)) ws"

section \<open>Objects and the store\<close>

text \<open>
  Images and dictionaries are mutable Python objects. The store holds every object at an
  address; a dictionary maps its keys, in insertion order, to the addresses of its
  values. A computation takes the store and returns its result or the exception raised,
  together with the store it leaves behind.
\<close>

datatype obj = Img image | Dict "(key \<times> nat) list"

type_synonym store = "obj list"

type_synonym 'a M = "store \<Rightarrow> (error + 'a) \<times> store"

definition returnM :: "'a \<Rightarrow> 'a M" where
  "returnM x s = (Inr x, s)"

definition raiseM :: "error \<Rightarrow> 'a M" where
  "raiseM e s = (Inl e, s)"

definition liftE :: "error + 'a \<Rightarrow> 'a M" where
  "liftE r s = (r, s)"

definition bindM :: "'a M \<Rightarrow> ('a \<Rightarrow> 'b M) \<Rightarrow> 'b M" where
  "bindM m f s = (case m s of (Inl e, s') \<Rightarrow> (Inl e, s') | (Inr x, s') \<Rightarrow> f x s')"

text \<open>A new object gets the next free address.\<close>

definition alloc :: "obj \<Rightarrow> nat M" where
  "alloc v s = (Inr (length s), s @ [v])"

definition get_img :: "nat \<Rightarrow> image M" where
  "get_img a s =
     (if a < length s then (case s ! a of Img i \<Rightarrow> (Inr i, s) | Dict m \<Rightarrow> (Inl TypeError, s))
      else (Inl TypeError, s))"

definition get_dict :: "nat \<Rightarrow> ((key \<times> nat) list) M" where
  "get_dict d s =
     (if d < length s then (case s ! d of Dict m \<Rightarrow> (Inr m, s) | Img i \<Rightarrow> (Inl TypeError, s))
      else (Inl TypeError, s))"

text \<open>In-place change of an image, as a slice assignment does.\<close>

definition put_img :: "nat \<Rightarrow> image \<Rightarrow> unit M" where
  "put_img a i s = (Inr (), s[a := Img i])"

definition modify_img :: "nat \<Rightarrow> (image \<Rightarrow> image) \<Rightarrow> unit M" where
  "modify_img a f = bindM (get_img a) (\<lambda>i. put_img a (f i))"

text \<open>\<^verbatim>\<open>d[k]\<close> raises \<open>KeyError\<close> for a missing key; \<^verbatim>\<open>d[k] = v\<close> changes the dictionary in place.\<close>

definition dict_get :: "nat \<Rightarrow> key \<Rightarrow> nat M" where
  "dict_get d k =
     bindM (get_dict d) (\<lambda>m. case map_of m k of None \<Rightarrow> raiseM (KeyError k) | Some a \<Rightarrow> returnM a)"

definition dict_set :: "nat \<Rightarrow> key \<Rightarrow> nat \<Rightarrow> unit M" where
  "dict_set d k a =
     bindM (get_dict d) (\<lambda>m s. (Inr (), s[d := Dict (AList.update k a m)]))"

definition read_img :: "nat \<Rightarrow> key \<Rightarrow> image M" where
  "read_img d k = bindM (dict_get d k) get_img"

text \<open>\<^verbatim>\<open>d[k] = f(...)\<close> where the right-hand side is a newly created image.\<close>

definition bind_new :: "nat \<Rightarrow> key \<Rightarrow> image \<Rightarrow> unit M" where
  "bind_new d k i = bindM (alloc (Img i)) (dict_set d k)"

fun forM :: "'a list \<Rightarrow> ('a \<Rightarrow> unit M) \<Rightarrow> unit M" where
  "forM [] body = returnM ()"
| "forM (x # xs) body = bindM (body x) (\<lambda>_. forM xs body)"

fun mapM :: "('a \<Rightarrow> 'b M) \<Rightarrow> 'a list \<Rightarrow> 'b list M" where
  "mapM f [] = returnM []"
| "mapM f (x # xs) = bindM (f x) (\<lambda>y. bindM (mapM f xs) (\<lambda>ys. returnM (y # ys)))"

text \<open>\<^verbatim>\<open>copy.deepcopy(contours)\<close>: a new dictionary holding a new copy of every image.\<close>

definition copy_entry :: "key \<times> nat \<Rightarrow> (key \<times> nat) M" where
  "copy_entry = (\<lambda>(k, a). bindM (get_img a) (\<lambda>i. bindM (alloc (Img i)) (\<lambda>a'. returnM (k, a'))))"

definition deepcopy :: "nat \<Rightarrow> nat M" where
  "deepcopy d =
     bindM (get_dict d) (\<lambda>m.
     bindM (mapM copy_entry m) (\<lambda>m'.
     alloc (Dict m')))"

section \<open>Vectors and configuration\<close>

definition cross :: "rvec3 \<Rightarrow> rvec3 \<Rightarrow> rvec3" where
  "cross a b =
     (case a of (a1, a2, a3) \<Rightarrow> case b of (b1, b2, b3) \<Rightarrow>
        (a2 * b3 - a3 * b2, a3 * b1 - a1 * b3, a1 * b2 - a2 * b1))"

definition vreverse :: "rvec3 \<Rightarrow> rvec3" where
  "vreverse a = (case a of (a1, a2, a3) \<Rightarrow> (a3, a2, a1))"

definition vscale :: "real \<Rightarrow> rvec3 \<Rightarrow> rvec3" where
  "vscale c a = (case a of (a1, a2, a3) \<Rightarrow> (c * a1, c * a2, c * a3))"

definition vadd :: "rvec3 \<Rightarrow> rvec3 \<Rightarrow> rvec3" where
  "vadd a b = (case a of (a1, a2, a3) \<Rightarrow> case b of (b1, b2, b3) \<Rightarrow> (a1 + b1, a2 + b2, a3 + b3))"

definition vsub :: "rvec3 \<Rightarrow> rvec3 \<Rightarrow> rvec3" where
  "vsub a b = (case a of (a1, a2, a3) \<Rightarrow> case b of (b1, b2, b3) \<Rightarrow> (a1 - b1, a2 - b2, a3 - b3))"

text \<open>
  \<^verbatim>\<open>
  rotation_transform = sitk.VersorRigid3DTransform()
  rotation_transform.SetCenter(rotation_centre)
  rotation_transform.SetRotation(rotation_axis, rotation_angle)
  \<close>
  The imaging library raises \<open>RuntimeError\<close> when the rotation axis has norm zero.
\<close>

definition set_rotation :: "rvec3 \<Rightarrow> rvec3 \<Rightarrow> real \<Rightarrow> error + transform" where
  "set_rotation rotation_centre rotation_axis rotation_angle =
     (if rotation_axis = (0, 0, 0) then Inl RuntimeError
      else Inr (Rigid rotation_centre rotation_axis rotation_angle))"

text \<open>The defaults of the keyword arguments.\<close>

definition default_config :: config where
  "default_config =
     \<lparr>label_left_ventricle = ''LEFTVENTRICLE'', label_left_atrium = ''LEFTATRIUM'',
      label_right_ventricle = ''RIGHTVENTRICLE'', label_mitral_valve = ''MITRALVALVE'',
      label_heart = ''WHOLEHEART'', myocardium_thickness_mm = 10, hole_fill_mm = 3,
      optimiser_tol_degrees = 1, optimiser_max_iter = 10\<rparr>"

text \<open>\<^verbatim>\<open>[int(mm / i) for i in img.GetSpacing()]\<close>\<close>

definition voxels_of_mm :: "real \<Rightarrow> rvec3 \<Rightarrow> error + ivec3" where
  "voxels_of_mm mm sp =
     (case sp of (sx, sy, sz) \<Rightarrow>
        if sx = 0 \<or> sy = 0 \<or> sz = 0 then Inl ZeroDivisionError
        else Inr (py_int (mm / sx), py_int (mm / sy), py_int (mm / sz)))"

definition optimiser_tol_radians :: "config \<Rightarrow> real" where
  "optimiser_tol_radians cfg = optimiser_tol_degrees cfg * pi / 180"

section \<open>Module 1: crop and initial alignment\<close>

text \<open>
  \<^verbatim>\<open>
  for label in contours:
      working_contours[label] = crop_to_roi(contours[label], cb_size, cb_index)
  \<close>
\<close>

definition crop_all :: "collab \<Rightarrow> nat \<Rightarrow> nat \<Rightarrow> ivec3 \<Rightarrow> ivec3 \<Rightarrow> unit M" where
  "crop_all P contours working_contours cb_size cb_index =
     bindM (get_dict contours) (\<lambda>m.
     forM (map fst m) (\<lambda>label.
       bindM (read_img contours label) (\<lambda>i.
       bindM (liftE (crop_to_roi P i cb_size cb_index)) (\<lambda>c.
       bind_new working_contours label c))))"

text \<open>
  \<^verbatim>\<open>
  for label in contours:
      working_contours[label] = sitk.Resample(working_contours[label], rotation_transform, ...)
  \<close>
\<close>

definition resample_all :: "collab \<Rightarrow> nat \<Rightarrow> nat \<Rightarrow> transform \<Rightarrow> unit M" where
  "resample_all P contours working_contours rotation_transform =
     bindM (get_dict contours) (\<lambda>m.
     forM (map fst m) (\<lambda>label.
       bindM (read_img working_contours label) (\<lambda>i.
       bindM (liftE (resample P i rotation_transform)) (\<lambda>r.
       bind_new working_contours label r))))"

definition preparation :: "collab \<Rightarrow> config \<Rightarrow> nat \<Rightarrow> nat \<Rightarrow> (ivec3 \<times> ivec3 \<times> ivec3) M" where
  "preparation P cfg contours working_contours =
     bindM (read_img working_contours (Name (label_left_ventricle cfg))) (\<lambda>lv.
     bindM (liftE (voxels_of_mm (myocardium_thickness_mm cfg) (img_spacing lv))) (\<lambda>erode_img.
     bindM (read_img working_contours (Name (label_heart cfg))) (\<lambda>heart.
     bindM (liftE (voxels_of_mm (hole_fill_mm cfg) (img_spacing heart))) (\<lambda>hole_fill_img.
     bindM (liftE (label_to_roi P (img_gt0 heart) (30, 30, 60))) (\<lambda>roi.
     bindM (crop_all P contours working_contours (fst roi) (snd roi)) (\<lambda>_.
     returnM (erode_img, hole_fill_img, snd roi)))))))"

definition initial_alignment :: "collab \<Rightarrow> config \<Rightarrow> nat \<Rightarrow> nat \<Rightarrow> (real \<times> transform) M" where
  "initial_alignment P cfg contours working_contours =
     bindM (read_img working_contours (Name (label_left_ventricle cfg))) (\<lambda>lv.
     bindM (read_img working_contours (Name (label_left_atrium cfg))) (\<lambda>la.
     bindM (liftE (principal_axis P (img_gt0 (img_add lv la)))) (\<lambda>ax.
     bindM (liftE (get_com_real P (img_gt0 (img_add lv la)))) (\<lambda>rotation_centre.
     (let cardiac_axis = (if snd (snd ax) < 0 then vscale (- 1) ax else ax);
          rotation_angle = vector_angle P (vreverse cardiac_axis) (0, 0, 1);
          rotation_axis = cross (vreverse cardiac_axis) (0, 0, 1)
      in bindM (liftE (set_rotation rotation_centre rotation_axis rotation_angle)) (\<lambda>rotation_transform.
         bindM (resample_all P contours working_contours rotation_transform) (\<lambda>_.
         returnM (rotation_angle, rotation_transform))))))))"

section \<open>Module 2: refinement of the long axis\<close>

text \<open>
  The apex of the left ventricle: the lowest slice index holding a voxel, and the mean
  row and column of the voxels of that slice.
\<close>

definition lv_apex :: "image \<Rightarrow> error + rvec3" where
  "lv_apex lv =
     (let lv_locations = where3 lv
      in bindE (np_min (map fst lv_locations)) (\<lambda>lv_apex_z.
           (let on_apex = map snd (filter (\<lambda>v. fst v = lv_apex_z) lv_locations);
                lv_apex_y = np_mean (map fst on_apex);
                lv_apex_x = np_mean (map snd on_apex)
            in Inr (lv_apex_x, lv_apex_y, real_of_int lv_apex_z))))"

text \<open>One pass of the body of the while loop, after \<^verbatim>\<open>n += 1\<close>.\<close>

definition refine_step :: "collab \<Rightarrow> config \<Rightarrow> nat \<Rightarrow> nat \<Rightarrow> (real \<times> transform) M" where
  "refine_step P cfg contours working_contours =
     bindM (read_img working_contours (Name (label_left_ventricle cfg))) (\<lambda>lv.
     bindM (liftE (lv_apex lv)) (\<lambda>lv_apex_loc.
     bindM (read_img working_contours (Name (label_mitral_valve cfg))) (\<lambda>mv.
     bindM (liftE (get_com_real P mv)) (\<lambda>mv_com.
     (let lv_apex_loc_img = index_to_physical P lv lv_apex_loc;
          lv_axis = vsub lv_apex_loc_img mv_com;
          rotation_axis = cross lv_axis (0, 0, 1);
          rotation_angle = vector_angle P lv_axis (0, 0, 1);
          rotation_centre = vscale 0.5 (vadd mv_com lv_apex_loc_img)
      in bindM (liftE (set_rotation rotation_centre rotation_axis rotation_angle)) (\<lambda>rotation_transform.
         bindM (resample_all P contours working_contours rotation_transform) (\<lambda>_.
         returnM (rotation_angle, rotation_transform))))))))"

text \<open>
  \<^verbatim>\<open>
  n = 0
  while n < optimiser_max_iter and np.abs(rotation_angle) > optimiser_tol_radians:
      n += 1
      ...
      overall_transform_list.append(rotation_transform)
  \<close>
  The loop returns the number of passes, the last rotation angle and the list of
  transforms.
\<close>

function refine_loop ::
  "collab \<Rightarrow> config \<Rightarrow> nat \<Rightarrow> nat \<Rightarrow> int \<Rightarrow> real \<Rightarrow> transform list \<Rightarrow> (int \<times> real \<times> transform list) M" where
  "refine_loop P cfg contours working_contours n rotation_angle overall_transform_list s =
     (if n < optimiser_max_iter cfg \<and> \<bar>rotation_angle\<bar> > optimiser_tol_radians cfg
      then (case refine_step P cfg contours working_contours s of
              (Inl e, s') \<Rightarrow> (Inl e, s')
            | (Inr r, s') \<Rightarrow>
                refine_loop P cfg contours working_contours (n + 1) (fst r)
                  (overall_transform_list @ [snd r]) s')
      else (Inr (n, rotation_angle, overall_transform_list), s))"
  by pat_completeness auto
termination
  by (relation "measure (\<lambda>(P, cfg, contours, working_contours, n, a, tl, s). nat (optimiser_max_iter cfg - n))")
     auto

declare refine_loop.simps [simp del]

definition axis_aligner :: "collab \<Rightarrow> config \<Rightarrow> nat \<Rightarrow> nat \<Rightarrow> (int \<times> real \<times> transform list) M" where
  "axis_aligner P cfg contours working_contours =
     bindM (initial_alignment P cfg contours working_contours) (\<lambda>r.
     refine_loop P cfg contours working_contours 0 (fst r) [snd r])"

section \<open>Module 3: myocardium and axial limits\<close>

text \<open>
  The myocardium is the left ventricle minus its erosion, masked to the dilation of the
  eroded region. The lower limit is the first long-axis index of the eroded region, the
  upper limit the long-axis index of the centre of mass of the mitral valve. The four
  band images are copies of the myocardium changed in place; only the apex cap is used
  afterwards.
\<close>

definition module3 ::
  "collab \<Rightarrow> config \<Rightarrow> nat \<Rightarrow> ivec3 \<Rightarrow> (image \<times> int \<times> int \<times> nat) M" where
  "module3 P cfg working_contours erode_img =
     bindM (read_img working_contours (Name (label_left_ventricle cfg))) (\<lambda>lv.
     bindM (liftE (binary_erode P lv erode_img)) (\<lambda>label_lv_inner.
     bindM (liftE (binary_dilate P label_lv_inner erode_img)) (\<lambda>label_lv_myo_mask.
     bindM (liftE (get_region P label_lv_inner)) (\<lambda>region.
     bindM (read_img working_contours (Name (label_mitral_valve cfg))) (\<lambda>mv.
     bindM (liftE (get_com P mv)) (\<lambda>com.
     (let label_lv_myo = img_mask (img_sub lv label_lv_inner) label_lv_myo_mask;
          inf_limit_lv = snd (snd (fst region));
          com_mv = fst com;
          b = axial_bands inf_limit_lv com_mv
      in bindM (alloc (Img (img_scale 1 label_lv_myo))) (\<lambda>label_lv_myo_apex.
         bindM (modify_img label_lv_myo_apex (\<lambda>i. zero_from i inf_limit_lv)) (\<lambda>_.
         bindM (alloc (Img (img_scale 1 label_lv_myo))) (\<lambda>label_lv_myo_apical.
         bindM (modify_img label_lv_myo_apical (\<lambda>i. zero_upto i inf_limit_lv)) (\<lambda>_.
         bindM (modify_img label_lv_myo_apical (\<lambda>i. zero_from i (apical_extent b))) (\<lambda>_.
         bindM (alloc (Img (img_scale 1 label_lv_myo))) (\<lambda>label_lv_myo_mid.
         bindM (modify_img label_lv_myo_mid (\<lambda>i. zero_upto i (apical_extent b))) (\<lambda>_.
         bindM (modify_img label_lv_myo_mid (\<lambda>i. zero_from i (mid_extent b))) (\<lambda>_.
         bindM (alloc (Img (img_scale 1 label_lv_myo))) (\<lambda>label_lv_myo_basal.
         bindM (modify_img label_lv_myo_basal (\<lambda>i. zero_upto i (mid_extent b))) (\<lambda>_.
         bindM (modify_img label_lv_myo_basal (\<lambda>i. zero_from i (basal_extent b))) (\<lambda>_.
         returnM (label_lv_myo, inf_limit_lv, com_mv, label_lv_myo_apex)))))))))))))))))))"

section \<open>Module 4: the 17 segments\<close>

text \<open>\<^verbatim>\<open>working_contours[k][:, :, n] = sl\<close>\<close>

definition write_slice :: "nat \<Rightarrow> key \<Rightarrow> int \<Rightarrow> slice \<Rightarrow> unit M" where
  "write_slice working_contours k n sl =
     bindM (dict_get working_contours k) (\<lambda>a.
     bindM (get_img a) (\<lambda>i.
     bindM (liftE (set_slice i n sl)) (\<lambda>i'.
     put_img a i')))"

text \<open>
  One pass of a loop over the slices of a band: the slice of the myocardium, its centre
  of mass, the angles, and one call of \<^verbatim>\<open>extract\<close> per segment of the band.
\<close>

definition assign_slice ::
  "collab \<Rightarrow> nat \<Rightarrow> image \<Rightarrow> (slice \<Rightarrow> int \<times> int \<Rightarrow> (int \<times> slice) list) \<Rightarrow> int \<Rightarrow> unit M" where
  "assign_slice P working_contours label_lv_myo segments n =
     bindM (liftE (slice_at label_lv_myo n)) (\<lambda>label_lv_myo_slice.
     bindM (liftE (get_com_slice P label_lv_myo_slice)) (\<lambda>com.
     forM (segments label_lv_myo_slice com) (\<lambda>ks.
       write_slice working_contours (Seg (fst ks)) n (snd ks))))"

text \<open>
  The second half of module 4, from \<^verbatim>\<open>for i in range(17)\<close> on: the 17 empty segment
  images, the apex cap as segment 17, and the three loops over the slices of the bands,
  with the two reference angles computed before.
\<close>

definition assign_segments ::
  "collab \<Rightarrow> config \<Rightarrow> nat \<Rightarrow> image \<Rightarrow> int \<Rightarrow> int \<Rightarrow> nat \<Rightarrow> real \<Rightarrow> real \<Rightarrow> unit M" where
  "assign_segments P cfg working_contours label_lv_myo inf_limit_lv com_mv label_lv_myo_apex
       theta_0 theta_0_apical =
     bindM (forM (py_range 0 17) (\<lambda>i.
              bindM (read_img working_contours (Name (label_heart cfg))) (\<lambda>heart.
              bind_new working_contours (Seg (i + 1)) (img_scale 0 heart)))) (\<lambda>_.
     bindM (dict_set working_contours (Seg 17) label_lv_myo_apex) (\<lambda>_.
     bindM (forM (apical_slices inf_limit_lv com_mv)
              (assign_slice P working_contours label_lv_myo (apical_slice_segments theta_0_apical))) (\<lambda>_.
     bindM (forM (mid_slices inf_limit_lv com_mv)
              (assign_slice P working_contours label_lv_myo (mid_slice_segments theta_0))) (\<lambda>_.
     forM (basal_slices inf_limit_lv com_mv)
       (assign_slice P working_contours label_lv_myo (basal_slice_segments theta_0))))))"

text \<open>
  Module 4: the right and the left ventricle of the working copy, the reference angle
  \<open>theta_0\<close> from the five slices \<^verbatim>\<open>np.arange(mid_extent, mid_extent + 5)\<close>, the apical
  reference angle, and the assignment.
\<close>

definition module4 ::
  "collab \<Rightarrow> config \<Rightarrow> nat \<Rightarrow> image \<Rightarrow> int \<Rightarrow> int \<Rightarrow> nat \<Rightarrow> unit M" where
  "module4 P cfg working_contours label_lv_myo inf_limit_lv com_mv label_lv_myo_apex =
     bindM (read_img working_contours (Name (label_right_ventricle cfg))) (\<lambda>rv.
     bindM (read_img working_contours (Name (label_left_ventricle cfg))) (\<lambda>lv.
     bindM (liftE (basal_theta_0 P lv rv (mid_extent (axial_bands inf_limit_lv com_mv)))) (\<lambda>theta_0.
     bindM (liftE (apical_theta_0 P lv rv (apical_slices inf_limit_lv com_mv))) (\<lambda>theta_0_apical.
     assign_segments P cfg working_contours label_lv_myo inf_limit_lv com_mv label_lv_myo_apex
       theta_0 theta_0_apical))))"

section \<open>Module 5: back to the image space\<close>

definition module5 ::
  "collab \<Rightarrow> config \<Rightarrow> nat \<Rightarrow> nat \<Rightarrow> nat \<Rightarrow> transform list \<Rightarrow> ivec3 \<Rightarrow> ivec3 \<Rightarrow> nat M" where
  "module5 P cfg contours working_contours output_contours overall_transform_list hole_fill_img cb_index =
     (let inverse_transform = Inverse (Composite overall_transform_list)
      in bindM (forM (py_range 0 17) (\<lambda>segment.
           bindM (read_img working_contours (Seg (segment + 1))) (\<lambda>i.
           bindM (liftE (resample P i inverse_transform)) (\<lambda>rotated.
           bindM (liftE (if hole_fill_mm cfg > 0 then closing P rotated hole_fill_img
                         else Inr rotated)) (\<lambda>closed.
           bindM (read_img contours (Name (label_heart cfg))) (\<lambda>heart.
           bindM (liftE (paste P (img_scale 0 heart) closed (img_size closed) (0, 0, 0) cb_index))
             (\<lambda>new_structure.
           bind_new output_contours (Seg (segment + 1)) new_structure))))))) (\<lambda>_.
         returnM output_contours))"

section \<open>The pipeline\<close>

text \<open>
  \<open>contours\<close> is the address of the input dictionary. The result is the address of the
  output dictionary, which maps the segments 1..17 to their images.
\<close>

definition generate_left_ventricle_segments :: "collab \<Rightarrow> config \<Rightarrow> nat \<Rightarrow> nat M" where
  "generate_left_ventricle_segments P cfg contours =
     bindM (deepcopy contours) (\<lambda>working_contours.
     bindM (alloc (Dict [])) (\<lambda>output_contours.
     bindM (preparation P cfg contours working_contours) (\<lambda>prep.
     bindM (axis_aligner P cfg contours working_contours) (\<lambda>aligned.
     bindM (module3 P cfg working_contours (fst prep)) (\<lambda>myo.
     bindM (module4 P cfg working_contours (fst myo) (fst (snd myo)) (fst (snd (snd myo)))
              (snd (snd (snd myo)))) (\<lambda>_.
     module5 P cfg contours working_contours output_contours (snd (snd aligned))
       (fst (snd prep)) (snd (snd prep))))))))"

text \<open>
  A collaborator whose every operation fails, to be completed field by field for the
  evaluation of the pipeline on concrete inputs.
\<close>

definition failing_collab :: collab where
  "failing_collab =
     \<lparr>label_to_roi = (\<lambda>i e. Inl RuntimeError), crop_to_roi = (\<lambda>i s x. Inl RuntimeError),
      vector_angle = (\<lambda>a b. 0), get_com = (\<lambda>i. Inl RuntimeError),
      get_com_slice = (\<lambda>s. Inl RuntimeError), get_com_real = (\<lambda>i. Inl RuntimeError),
      principal_axis = (\<lambda>i. Inl RuntimeError), get_region = (\<lambda>i. Inl RuntimeError),
      resample = (\<lambda>i t. Inl RuntimeError), index_to_physical = (\<lambda>i p. p),
      binary_erode = (\<lambda>i r. Inl RuntimeError), binary_dilate = (\<lambda>i r. Inl RuntimeError),
      closing = (\<lambda>i r. Inl RuntimeError), paste = (\<lambda>a b s x y. Inl RuntimeError)\<rparr>"

text \<open>Concrete inputs for evaluation: a ring of eight myocardial voxels around the
  centre \<open>(1, 1)\<close> of a 3 by 3 slice, a left ventricle filling a 3 by 3 by 5 image, and a
  right ventricle with one voxel per slice, below the centre.\<close>

definition ring_slice :: slice where
  "ring_slice = \<lparr>sl_size = (3, 3), sl_pix = (\<lambda>p. if p = (1, 1) then 0 else 1)\<rparr>"

definition block_lv :: image where
  "block_lv = \<lparr>img_size = (3, 3, 5), img_spacing = (1, 1, 1), img_origin = (0, 0, 0),
                img_direction = [1, 0, 0, 0, 1, 0, 0, 0, 1], img_pix = (\<lambda>p. 1)\<rparr>"

definition column_rv :: image where
  "column_rv = \<lparr>img_size = (3, 3, 5), img_spacing = (1, 1, 1), img_origin = (0, 0, 0),
                 img_direction = [1, 0, 0, 0, 1, 0, 0, 0, 1],
                 img_pix = (\<lambda>p. if snd p = (2, 1) then 1 else 0)\<rparr>"

definition centre_collab :: collab where
  "centre_collab = failing_collab\<lparr>get_com_slice := (\<lambda>sl. Inr (1, 1))\<rparr>"

text \<open>
  Stores for the evaluation of the pipeline: three masks, of which the run needs the
  left ventricle, the left atrium and the whole heart up to the end of the alignment; a
  working dictionary beside its input; an input without the whole heart; and a left
  ventricle without a positive voxel.
\<close>

definition example_store :: store where
  "example_store =
     [Dict [(Name ''LEFTVENTRICLE'', 1), (Name ''LEFTATRIUM'', 2), (Name ''WHOLEHEART'', 3)],
      Img block_lv, Img block_lv, Img block_lv]"

definition aligner_store :: store where
  "aligner_store =
     [Dict [(Name ''LEFTVENTRICLE'', 2), (Name ''LEFTATRIUM'', 3)],
      Dict [(Name ''LEFTVENTRICLE'', 4), (Name ''LEFTATRIUM'', 5)],
      Img block_lv, Img block_lv, Img block_lv, Img block_lv]"



text \<open>The left and the right ventricle of the aligned frame, for the reference angle.\<close>

definition angle_store :: store where
  "angle_store =
     [Dict [(Name ''LEFTVENTRICLE'', 1), (Name ''RIGHTVENTRICLE'', 2)], Img block_lv, Img column_rv]"

text \<open>
  A collaborator that crops and resamples by the identity, reports a fixed principal axis
  and centre, and measures the given angle between any two vectors.
\<close>

definition aligning_collab :: "real \<Rightarrow> collab" where
  "aligning_collab angle =
     failing_collab\<lparr>label_to_roi := (\<lambda>i e. Inr ((3, 3, 5), (0, 0, 0))),
                    crop_to_roi := (\<lambda>i s x. Inr i),
                    vector_angle := (\<lambda>a b. angle),
                    get_com_real := (\<lambda>i. Inr (0, 0, 0)),
                    principal_axis := (\<lambda>i. Inr (0, 0, 1)),
                    resample := (\<lambda>i t. Inr i)\<rparr>"

section \<open>Invariants of the store\<close>

text \<open>
  Relative to the store \<open>s0\<close> at the call: every object of \<open>s0\<close> is still at its address
  and unchanged, and every dictionary allocated since holds only addresses allocated
  since. A computation keeps the invariant when it preserves it whatever its outcome; \<open>R\<close>
  holds of its result.
\<close>

definition unchanged :: "store \<Rightarrow> store \<Rightarrow> bool" where
  "unchanged s0 s \<longleftrightarrow> length s0 \<le> length s \<and> take (length s0) s = s0"

definition fresh_entries :: "nat \<Rightarrow> (key \<times> nat) list \<Rightarrow> bool" where
  "fresh_entries b m \<longleftrightarrow> list_all (\<lambda>ka. b \<le> snd ka) m"

definition fresh_dicts :: "nat \<Rightarrow> store \<Rightarrow> bool" where
  "fresh_dicts b s \<longleftrightarrow>
     (\<forall>d m. b \<le> d \<and> d < length s \<and> s ! d = Dict m \<longrightarrow> fresh_entries b m)"

definition store_inv :: "store \<Rightarrow> store \<Rightarrow> bool" where
  "store_inv s0 s \<longleftrightarrow> unchanged s0 s \<and> fresh_dicts (length s0) s"

definition keeps :: "store \<Rightarrow> 'a M \<Rightarrow> ('a \<Rightarrow> bool) \<Rightarrow> bool" where
  "keeps s0 m R \<longleftrightarrow>
     (\<forall>s. store_inv s0 s \<longrightarrow> store_inv s0 (snd (m s)) \<and> (\<forall>x. fst (m s) = Inr x \<longrightarrow> R x))"




section \<open>Properties of the angular windows\<close>

lemma arctan2_bounds: "- pi < arctan2 y x \<and> arctan2 y x \<le> pi"
  unfolding arctan2_def by (rule Arg_bounded)

lemma arctan2_neg_x_axis: "arctan2 0 (- 1) = pi"
  unfolding arctan2_def
  by (rule cis_Arg_unique) (simp_all add: sgn_eq complex_eq_iff cmod_def)

lemma arctan2_neg_y_axis: "arctan2 (- 1) 0 = - pi / 2"
proof -
  have "- (pi / 2) \<le> pi" using pi_gt_zero by linarith
  then show ?thesis
    unfolding arctan2_def
    by (intro cis_Arg_unique) (simp_all add: sgn_eq complex_eq_iff cmod_def)
qed

lemma set_where2:
  "p \<in> set (where2 sl) \<longleftrightarrow>
     0 \<le> fst p \<and> fst p < snd (sl_size sl) \<and> 0 \<le> snd p \<and> snd p < fst (sl_size sl) \<and> sl_pix sl p \<noteq> 0"
  by (cases p) (auto simp: where2_def)

lemma set_where3:
  "v \<in> set (where3 im) \<longleftrightarrow>
     (case v of (z, y, x) \<Rightarrow> 0 \<le> z \<and> z < size_z im \<and> 0 \<le> y \<and> y < size_y im \<and>
        0 \<le> x \<and> x < size_x im \<and> img_pix im (z, y, x) \<noteq> 0)"
  by (cases v) (auto simp: where3_def)

lemma zip_fst_snd: "zip (map fst xs) (map snd xs) = xs"
  by (induction xs) auto

text \<open>The result of \<^verbatim>\<open>extract\<close> on the voxels of a slice and their angles.\<close>

lemma extract_pix:
  "sl_pix (extract sl (map f loc) lo hi (map snd loc) (map fst loc) cw) p =
     (if p \<in> set loc \<and> in_segment_condition cw lo hi (f p) then 1 else 0)"
proof -
  have "zip (map f loc) loc = map (\<lambda>q. (f q, q)) loc"
    by (induction loc) auto
  then have "set (map snd (filter (\<lambda>(a, q). in_segment_condition cw lo hi a) (zip (map f loc) loc)))
      = {q \<in> set loc. in_segment_condition cw lo hi (f q)}"
    by (auto simp: image_iff)
  then show ?thesis
    by (simp add: extract_def zip_fst_snd)
qed

lemma in_segment_mid:
  "in_segment (mid_slice_segments theta_0 sl com) k p \<longleftrightarrow>
     p \<in> set (where2 sl) \<and>
     (let t = voxel_theta theta_0 com p in
      (k = 8 \<and> in_segment_condition False 0 (pi / 3) t) \<or>
      (k = 9 \<and> in_segment_condition False (1 * pi / 3) (2 * pi / 3) t) \<or>
      (k = 10 \<and> in_segment_condition False (2 * pi / 3) (3 * pi / 3) t) \<or>
      (k = 11 \<and> in_segment_condition False (3 * pi / 3) (4 * pi / 3) t) \<or>
      (k = 12 \<and> in_segment_condition False (4 * pi / 3) (5 * pi / 3) t) \<or>
      (k = 7 \<and> in_segment_condition False (5 * pi / 3) (2 * pi) t))"
  unfolding in_segment_def mid_slice_segments_def slice_theta_def Let_def
  by (simp add: extract_pix del: One_nat_def)

lemma ring_left_voxel: "(1, 0) \<in> set (where2 ring_slice)"
  by (simp add: set_where2 ring_slice_def)

lemma voxel_theta_left_0: "voxel_theta 0 (1, 1) (1, 0) = pi"
  by (simp add: voxel_theta_def normalise_def arctan2_neg_x_axis)

lemma voxel_theta_left_late: "voxel_theta (3 * pi / 2) (1, 1) (1, 0) = - pi / 2"
  by (simp add: voxel_theta_def normalise_def arctan2_neg_x_axis)

lemma segments_by_windows:
  "apical_slice_segments ref sl com = window_segments apical_windows ref sl com"
  "mid_slice_segments ref sl com = window_segments mid_windows ref sl com"
  "basal_slice_segments ref sl com = window_segments basal_windows ref sl com"
  by (simp_all add: apical_slice_segments_def mid_slice_segments_def basal_slice_segments_def
      window_segments_def apical_windows_def mid_windows_def basal_windows_def Let_def)

lemma mid_cover:
  assumes "0 \<le> t" "t < 2 * pi"
  shows "list_ex (selects t) mid_windows"
  using assms by (auto simp: mid_windows_def selects_def in_segment_condition_def)

lemma apical_cover:
  assumes "0 \<le> t" "t < 2 * pi"
  shows "list_ex (selects t) apical_windows"
  using assms by (auto simp: apical_windows_def selects_def in_segment_condition_def)

lemma basal_cover:
  assumes "0 \<le> t" "t < 2 * pi"
  shows "list_ex (selects t) basal_windows"
  using assms by (auto simp: basal_windows_def selects_def in_segment_condition_def)

lemma basal_unique:
  assumes "0 \<le> t" "t < 2 * pi" "t \<notin> window_bounds basal_windows"
  shows "length (filter (selects t) basal_windows) = 1"
  using assms
  by (auto simp: basal_windows_def selects_def in_segment_condition_def window_bounds_def)

lemma mid_unique:
  assumes "0 \<le> t" "t < 2 * pi" "t \<notin> window_bounds mid_windows"
  shows "length (filter (selects t) mid_windows) = 1"
  using assms
  by (auto simp: mid_windows_def selects_def in_segment_condition_def window_bounds_def)

lemma apical_unique:
  assumes "0 \<le> t" "t < 2 * pi" "t \<notin> window_bounds apical_windows"
  shows "length (filter (selects t) apical_windows) = 1"
  using assms
  by (auto simp: apical_windows_def selects_def in_segment_condition_def window_bounds_def)

text \<open>
  C2. The windows of a band are meant to be half-open and to select every angle of
  \<open>[0, 2\<pi>)\<close> exactly once. The test of \<^verbatim>\<open>extract\<close> is inclusive at both bounds. The
  assignment of a mid slice uses the windows of the table; the windows of the segments 10
  and 11 share the bound \<open>\<pi>\<close>, each of the two tests holds at \<open>\<pi>\<close>, and the windows of
  the mid band that select the angle \<open>\<pi>\<close> of \<open>[0, 2\<pi>)\<close> are these two.
\<close>

theorem two_windows_select_pi:
  "mid_slice_segments ref sl com = window_segments mid_windows ref sl com \<and>
   0 \<le> pi \<and> pi < 2 * pi \<and>
   in_segment_condition False (2 * pi / 3) (3 * pi / 3) pi \<and>
   in_segment_condition False (3 * pi / 3) (4 * pi / 3) pi \<and>
   filter (selects pi) mid_windows =
     [(10, False, 2 * pi / 3, 3 * pi / 3), (11, False, 3 * pi / 3, 4 * pi / 3)]"
  by (simp add: segments_by_windows mid_windows_def selects_def in_segment_condition_def)

text \<open>
  C1. The segments are meant to be pairwise disjoint. With the reference angle
  \<open>theta_0 = 0\<close>, the voxel of the ring to the left of the centre has the angle \<open>\<pi>\<close>,
  and the assignment of a mid slice sets it in segment 10 and in segment 11.
\<close>

theorem boundary_voxel_in_two_segments:
  "in_segment (mid_slice_segments 0 ring_slice (1, 1)) 10 (1, 0) \<and>
   in_segment (mid_slice_segments 0 ring_slice (1, 1)) 11 (1, 0)"
  by (simp add: in_segment_mid ring_left_voxel voxel_theta_left_0 in_segment_condition_def)

text \<open>
  C3. Every myocardial voxel of a band is meant to be assigned to a segment of the band.
  With the reference angle \<open>theta_0 = 3\<pi>/2\<close>, the voxel of the ring to the left of the
  centre is a voxel of the slice and is set in none of the segments 7 to 12.
\<close>

theorem voxel_in_no_segment:
  "sl_pix ring_slice (1, 0) \<noteq> 0 \<and>
   \<not> list_ex (\<lambda>k. in_segment (mid_slice_segments (3 * pi / 2) ring_slice (1, 1)) k (1, 0))
        [7, 8, 9, 10, 11, 12]"
  using pi_ge_two
  by (auto simp: in_segment_mid ring_left_voxel voxel_theta_left_late in_segment_condition_def
      ring_slice_def)

section \<open>Properties of the angles\<close>

lemma bindE_simps [simp]: "bindE (Inl e) f = Inl e" "bindE (Inr x) f = f x"
  by (simp_all add: bindE_def)

lemma np_min_Min: "xs \<noteq> [] \<Longrightarrow> np_min xs = Inr (Min (set xs))"
  by (cases xs) (simp_all add: np_min_def Min.set_eq_fold[symmetric])

lemma mapE_Inr: "(\<And>x. x \<in> set xs \<Longrightarrow> f x = Inr (g x)) \<Longrightarrow> mapE f xs = Inr (map g xs)"
  by (induction xs) simp_all

lemma py_range_5: "py_range m (m + 5) = [m, m + 1, m + 2, m + 3, m + 4]"
proof -
  have 1: "[m..m + 4] = m # [m + 1..m + 4]"
    by (rule upto_rec1) simp
  have 2: "[m + 1..m + 4] = (m + 1) # [m + 2..m + 4]"
    using upto_rec1[of "m + 1" "m + 4"] by (simp add: add.commute)
  have 3: "[m + 2..m + 4] = (m + 2) # [m + 3..m + 4]"
    using upto_rec1[of "m + 2" "m + 4"] by (simp add: add.commute)
  have 4: "[m + 3..m + 4] = (m + 3) # [m + 4..m + 4]"
    using upto_rec1[of "m + 3" "m + 4"] by (simp add: add.commute)
  have 5: "[m + 4..m + 4] = [m + 4]"
    by simp
  have "py_range m (m + 5) = [m..m + 4]"
    by (simp add: py_range_def add.commute)
  then show ?thesis
    by (simp only: 1 2 3 4 5)
qed

lemma np_median_5: "length xs = 5 \<Longrightarrow> np_median xs = sort xs ! 2"
  by (simp add: np_median_def Let_def)

lemma normalise_range: "- pi < t \<Longrightarrow> t \<le> pi \<Longrightarrow> 0 \<le> normalise t \<and> normalise t < 2 * pi"
  by (auto simp: normalise_def)

lemma rv_angle_range: "0 \<le> rv_angle c p \<and> rv_angle c p < 2 * pi"
  unfolding rv_angle_def using arctan2_bounds by (intro normalise_range) auto

lemma rv_insertion_value:
  assumes "slice_com P lv z = Inr c" "rv_on_slice loc_rv z \<noteq> []"
  shows "rv_insertion P lv loc_rv z = Inr (Min (rv_angle c ` set (rv_on_slice loc_rv z)))"
  using assms by (simp add: rv_insertion_def np_min_Min)

lemma basal_theta_0_value:
  assumes com: "\<forall>z \<in> {m..m + 4}. slice_com P lv z = Inr (c z)"
    and rv: "\<forall>z \<in> {m..m + 4}. rv_on_slice (where3 rv) z \<noteq> []"
  shows "basal_theta_0 P lv rv m =
           Inr (sort (map (\<lambda>z. Min (rv_angle (c z) ` set (rv_on_slice (where3 rv) z)))
                          [m, m + 1, m + 2, m + 3, m + 4]) ! 2)"
proof -
  let ?g = "\<lambda>z. Min (rv_angle (c z) ` set (rv_on_slice (where3 rv) z))"
  have "mapE (rv_insertion P lv (where3 rv)) [m, m + 1, m + 2, m + 3, m + 4]
          = Inr (map ?g [m, m + 1, m + 2, m + 3, m + 4])"
  proof (rule mapE_Inr)
    fix z assume "z \<in> set [m, m + 1, m + 2, m + 3, m + 4]"
    then have "z \<in> {m..m + 4}" by auto
    with com rv show "rv_insertion P lv (where3 rv) z = Inr (?g z)"
      by (intro rv_insertion_value) auto
  qed
  then show ?thesis
    by (simp add: basal_theta_0_def py_range_5 np_median_5)
qed

lemma slice_com_block:
  assumes "0 \<le> z" "z < 5"
  shows "slice_com centre_collab block_lv z = Inr (1, 1)"
proof -
  have sz: "size_z block_lv = 5"
    by (simp add: size_z_def block_lv_def)
  obtain sl where "slice_at block_lv z = Inr sl"
    using assms sz by (simp add: slice_at_def Let_def)
  moreover have "get_com_slice centre_collab sl = Inr (1, 1)"
    by (simp add: centre_collab_def)
  ultimately show ?thesis
    by (simp add: slice_com_def)
qed

lemma block_lv_com: "\<forall>z \<in> {0..0 + 4}. slice_com centre_collab block_lv z = Inr (1, 1)"
  by (auto intro: slice_com_block)

lemma column_rv_sizes:
  "size_x column_rv = 3" "size_y column_rv = 3" "size_z column_rv = 5"
  by (simp_all add: size_x_def size_y_def size_z_def column_rv_def)

lemma column_rv_pix: "img_pix column_rv (z, y, x) = (if (y, x) = (2, 1) then 1 else 0)"
  by (simp add: column_rv_def)

lemma column_rv_where:
  "v \<in> set (where3 column_rv) \<longleftrightarrow> 0 \<le> fst v \<and> fst v < 5 \<and> snd v = (2, 1)"
proof (cases v)
  case (fields z y x)
  show ?thesis
    unfolding fields set_where3 column_rv_sizes column_rv_pix
    by auto
qed

lemma column_rv_on_slice:
  assumes "0 \<le> z" "z \<le> 4"
  shows "set (rv_on_slice (where3 column_rv) z) = {(2, 1)}"
proof -
  have "set (rv_on_slice (where3 column_rv) z) = snd ` {v \<in> set (where3 column_rv). fst v = z}"
    by (simp add: rv_on_slice_def)
  also have "{v \<in> set (where3 column_rv). fst v = z} = {(z, 2, 1)}"
    using assms by (auto simp: column_rv_where)
  finally show ?thesis by simp
qed

lemma column_rv_nonempty: "\<forall>z \<in> {0..0 + 4}. rv_on_slice (where3 column_rv) z \<noteq> []"
proof
  fix z :: int assume "z \<in> {0..0 + 4}"
  then have "set (rv_on_slice (where3 column_rv) z) = {(2, 1)}"
    by (intro column_rv_on_slice) auto
  then show "rv_on_slice (where3 column_rv) z \<noteq> []" by auto
qed

lemma rv_angle_below: "rv_angle (1, 1) (2, 1) = 3 * pi / 2"
  using pi_gt_zero by (simp add: rv_angle_def normalise_def arctan2_neg_y_axis)

lemma column_rv_min:
  "map (\<lambda>z. Min (rv_angle (1, 1) ` set (rv_on_slice (where3 column_rv) z))) [0, 0 + 1, 0 + 2, 0 + 3, 0 + 4]
     = [3 * pi / 2, 3 * pi / 2, 3 * pi / 2, 3 * pi / 2, 3 * pi / 2]"
  by (simp add: column_rv_on_slice rv_angle_below)

lemma column_rv_theta_0: "basal_theta_0 centre_collab block_lv column_rv 0 = Inr (3 * pi / 2)"
  using basal_theta_0_value[OF block_lv_com column_rv_nonempty]
  by (simp only: column_rv_min) simp

text \<open>
  C4. After the normalisation the angle is meant to lie in \<open>[0, 2\<pi>)\<close>; the comment of
  the source says so. The reference angle \<open>theta_0\<close> itself lies in \<open>[0, 2\<pi>)\<close>, the
  negated polar angle in \<open>[-\<pi>, \<pi>)\<close>, and one turn is added to a negative difference:
  for the concrete right ventricle \<open>theta_0\<close> is \<open>3\<pi>/2\<close>, and the voxel of the ring to
  the left of the centre keeps the negative angle \<open>-\<pi>/2\<close>.
\<close>

theorem theta_left_negative:
  "basal_theta_0 centre_collab block_lv column_rv 0 = Inr (3 * pi / 2) \<and>
   voxel_theta (3 * pi / 2) (1, 1) (1, 0) = - pi / 2 \<and>
   voxel_theta (3 * pi / 2) (1, 1) (1, 0) < 0"
  using pi_gt_zero by (simp add: column_rv_theta_0 voxel_theta_left_late)

lemma slice_com_explicit:
  assumes "0 \<le> z" "z < snd (snd (img_size lv))"
  shows "slice_com P lv z =
           get_com_slice P \<lparr>sl_size = (fst (img_size lv), fst (snd (img_size lv))),
                             sl_pix = (\<lambda>(y, x). img_pix lv (z, y, x))\<rparr>"
  using assms by (simp add: slice_com_def slice_at_def Let_def size_x_def size_y_def size_z_def)

lemma rv_on_slice_set:
  "set (rv_on_slice (where3 rv) z) =
     {(y, x). 0 \<le> z \<and> z < snd (snd (img_size rv)) \<and> 0 \<le> y \<and> y < fst (snd (img_size rv)) \<and>
              0 \<le> x \<and> x < fst (img_size rv) \<and> img_pix rv (z, y, x) \<noteq> 0}"
  by (auto simp: rv_on_slice_def set_where3 size_x_def size_y_def size_z_def image_iff)

lemma rv_angle_explicit:
  "rv_angle (cy, cx) (y, x) =
     (let a = Arg (Complex (real_of_int (x - cx)) (real_of_int (cy - y)))
      in if a < 0 then a + 2 * pi else a)"
  by (simp add: rv_angle_def normalise_def arctan2_def Let_def)

text \<open>
  C7. The pipeline computes \<open>theta_0\<close> at \<open>m\<close>, the boundary between the mid band and the
  basal band, over the five slices \<open>m, \<dots>, m + 4\<close>. For each of them it takes the
  right-ventricle voxels of that slice, the polar angle \<open>atan2(cy - y, x - cx)\<close> of each
  about the centre of mass \<open>(cy, cx)\<close> of the left ventricle on that slice, with one turn
  added to a negative angle, and the minimum of these angles; \<open>theta_0\<close> is the median of
  the five minima, the third smallest. Every such angle lies in \<open>[0, 2\<pi>)\<close>, and module 4
  passes this \<open>theta_0\<close> to the assignment of the segments.
\<close>

theorem theta_0_is_median_of_slice_minima:
  fixes P :: collab and cfg :: config and lv rv :: image and inf_limit_lv com_mv :: int
    and cy cx :: "int \<Rightarrow> int"
  defines "m \<equiv> mid_extent (axial_bands inf_limit_lv com_mv)"
  defines "lv_slice \<equiv> \<lambda>z. \<lparr>sl_size = (fst (img_size lv), fst (snd (img_size lv))),
                              sl_pix = (\<lambda>(y, x). img_pix lv (z, y, x))\<rparr>"
  defines "rv_voxels \<equiv> \<lambda>z. {(y, x). 0 \<le> z \<and> z < snd (snd (img_size rv)) \<and>
                                 0 \<le> y \<and> y < fst (snd (img_size rv)) \<and>
                                 0 \<le> x \<and> x < fst (img_size rv) \<and> img_pix rv (z, y, x) \<noteq> 0}"
  defines "angle \<equiv> \<lambda>z (y, x).
             (let a = Arg (Complex (real_of_int (x - cx z)) (real_of_int (cy z - y)))
              in if a < 0 then a + 2 * pi else a)"
  defines "theta_0 \<equiv> sort (map (\<lambda>z. Min (angle z ` rv_voxels z)) [m, m + 1, m + 2, m + 3, m + 4]) ! 2"
  assumes rd_rv: "read_img working_contours (Name (label_right_ventricle cfg)) s = (Inr rv, s)"
    and rd_lv: "read_img working_contours (Name (label_left_ventricle cfg)) s = (Inr lv, s)"
    and lo: "0 \<le> m" and hi: "m + 4 < snd (snd (img_size lv))"
    and com: "\<forall>z \<in> {m..m + 4}. get_com_slice P (lv_slice z) = Inr (cy z, cx z)"
    and rv: "\<forall>z \<in> {m..m + 4}. rv_voxels z \<noteq> {}"
  shows "m = inf_limit_lv + 2 * dc (axial_bands inf_limit_lv com_mv) \<and>
         set (mid_slices inf_limit_lv com_mv) = {inf_limit_lv + dc (axial_bands inf_limit_lv com_mv) ..< m} \<and>
         set (basal_slices inf_limit_lv com_mv) = {m ..< com_mv} \<and>
         py_range m (m + 5) = [m, m + 1, m + 2, m + 3, m + 4] \<and>
         basal_theta_0 P lv rv m = Inr theta_0 \<and>
         (\<forall>z p. 0 \<le> angle z p \<and> angle z p < 2 * pi) \<and>
         module4 P cfg working_contours label_lv_myo inf_limit_lv com_mv label_lv_myo_apex s =
           bindM (liftE (apical_theta_0 P lv rv (apical_slices inf_limit_lv com_mv)))
             (assign_segments P cfg working_contours label_lv_myo inf_limit_lv com_mv
                label_lv_myo_apex theta_0) s"
proof -
  have sc: "\<forall>z \<in> {m..m + 4}. slice_com P lv z = Inr (cy z, cx z)"
  proof
    fix z assume z: "z \<in> {m..m + 4}"
    with lo hi have "0 \<le> z" "z < snd (snd (img_size lv))" by auto
    from slice_com_explicit[OF this, of P] com z show "slice_com P lv z = Inr (cy z, cx z)"
      by (simp add: lv_slice_def)
  qed
  have vox: "\<And>z. set (rv_on_slice (where3 rv) z) = rv_voxels z"
    unfolding rv_voxels_def by (rule rv_on_slice_set)
  have ne: "\<forall>z \<in> {m..m + 4}. rv_on_slice (where3 rv) z \<noteq> []"
  proof
    fix z assume "z \<in> {m..m + 4}"
    with rv have "set (rv_on_slice (where3 rv) z) \<noteq> {}" by (simp add: vox)
    then show "rv_on_slice (where3 rv) z \<noteq> []" by auto
  qed
  have ang: "\<And>z p. rv_angle (cy z, cx z) p = angle z p"
  proof -
    fix z and p :: "int \<times> int"
    obtain y x where p: "p = (y, x)" by (cases p)
    show "rv_angle (cy z, cx z) p = angle z p"
      unfolding p angle_def by (simp add: rv_angle_explicit)
  qed
  have img: "\<And>z. rv_angle (cy z, cx z) ` set (rv_on_slice (where3 rv) z) = angle z ` rv_voxels z"
    by (simp add: vox ang)
  have t0: "basal_theta_0 P lv rv m = Inr theta_0"
    using basal_theta_0_value[of m P lv "\<lambda>z. (cy z, cx z)" rv, OF sc ne]
    by (simp add: img theta_0_def)
  have bands: "m = inf_limit_lv + 2 * dc (axial_bands inf_limit_lv com_mv)"
    "set (mid_slices inf_limit_lv com_mv) = {inf_limit_lv + dc (axial_bands inf_limit_lv com_mv) ..< m}"
    "set (basal_slices inf_limit_lv com_mv) = {m ..< com_mv}"
    by (auto simp: m_def axial_bands_def mid_slices_def basal_slices_def py_range_def Let_def)
  have rng: "\<forall>z p. 0 \<le> angle z p \<and> angle z p < 2 * pi"
    using rv_angle_range[of "(cy z, cx z)" for z] by (simp add: ang)
  have m4: "module4 P cfg working_contours label_lv_myo inf_limit_lv com_mv label_lv_myo_apex s =
           bindM (liftE (apical_theta_0 P lv rv (apical_slices inf_limit_lv com_mv)))
             (assign_segments P cfg working_contours label_lv_myo inf_limit_lv com_mv
                label_lv_myo_apex theta_0) s"
    using t0 by (simp add: module4_def bindM_def rd_rv rd_lv liftE_def m_def)
  from bands py_range_5[of m] t0 rng m4 show ?thesis by blast
qed


lemma angle_store_reads:
  "read_img 0 (Name (label_right_ventricle default_config)) angle_store = (Inr column_rv, angle_store)"
  "read_img 0 (Name (label_left_ventricle default_config)) angle_store = (Inr block_lv, angle_store)"
  by (simp_all add: angle_store_def default_config_def read_img_def dict_get_def get_dict_def
      get_img_def bindM_def returnM_def)

lemma column_rv_voxels:
  "\<forall>z \<in> {0..0 + 4}.
     {(y, x). 0 \<le> z \<and> z < snd (snd (img_size column_rv)) \<and> 0 \<le> y \<and> y < fst (snd (img_size column_rv)) \<and>
              0 \<le> x \<and> x < fst (img_size column_rv) \<and> img_pix column_rv (z, y, x) \<noteq> 0} \<noteq> {}"
proof
  fix z :: int assume "z \<in> {0..0 + 4}"
  then have "(2, 1) \<in> {(y, x). 0 \<le> z \<and> z < snd (snd (img_size column_rv)) \<and> 0 \<le> y \<and>
       y < fst (snd (img_size column_rv)) \<and> 0 \<le> x \<and> x < fst (img_size column_rv) \<and>
       img_pix column_rv (z, y, x) \<noteq> 0}"
    by (simp add: column_rv_def)
  then show "{(y, x). 0 \<le> z \<and> z < snd (snd (img_size column_rv)) \<and> 0 \<le> y \<and>
       y < fst (snd (img_size column_rv)) \<and> 0 \<le> x \<and> x < fst (img_size column_rv) \<and>
       img_pix column_rv (z, y, x) \<noteq> 0} \<noteq> {}"
    by blast
qed

theorem theta_0_is_median_of_slice_minima_witness:
  "mid_extent (axial_bands 0 0) = 0 \<and>
   basal_theta_0 centre_collab block_lv column_rv 0 = Inr (3 * pi / 2) \<and>
   module4 centre_collab default_config 0 block_lv 0 0 1 angle_store =
     bindM (liftE (apical_theta_0 centre_collab block_lv column_rv (apical_slices 0 0)))
       (assign_segments centre_collab default_config 0 block_lv 0 0 1 (3 * pi / 2)) angle_store"
proof -
  have m: "mid_extent (axial_bands 0 0) = 0"
    by (simp add: axial_bands_def py_int_def)
  have hi: "0 + 4 < snd (snd (img_size block_lv))"
    by (simp add: block_lv_def)
  have com: "\<forall>z \<in> {0..0 + 4}.
      get_com_slice centre_collab
        \<lparr>sl_size = (fst (img_size block_lv), fst (snd (img_size block_lv))),
         sl_pix = (\<lambda>(y, x). img_pix block_lv (z, y, x))\<rparr> = Inr (1, 1)"
    by (simp add: centre_collab_def)
  note th = theta_0_is_median_of_slice_minima[where P = centre_collab and cfg = default_config
      and lv = block_lv and rv = column_rv and inf_limit_lv = 0 and com_mv = 0
      and cy = "\<lambda>z. 1" and cx = "\<lambda>z. 1" and working_contours = 0 and s = angle_store
      and label_lv_myo = block_lv and label_lv_myo_apex = 1, unfolded m,
      OF angle_store_reads order_refl hi com column_rv_voxels]
  from th obtain t where b: "basal_theta_0 centre_collab block_lv column_rv 0 = Inr t"
    and m4: "module4 centre_collab default_config 0 block_lv 0 0 1 angle_store =
      bindM (liftE (apical_theta_0 centre_collab block_lv column_rv (apical_slices 0 0)))
        (assign_segments centre_collab default_config 0 block_lv 0 0 1 t) angle_store"
    by blast
  from b column_rv_theta_0 have "t = 3 * pi / 2" by simp
  with m b m4 show ?thesis by simp
qed

section \<open>Properties of the axial division\<close>

lemma floor_div3: "\<lfloor>real_of_int k / 3\<rfloor> = k div 3"
  using floor_divide_of_int_eq[of k 3] by simp

lemma py_int_div3: "py_int (real_of_int e / 3) = (if 0 \<le> e then e div 3 else - ((- e) div 3))"
proof (cases "0 \<le> e")
  case True
  then show ?thesis by (simp add: py_int_def floor_div3)
next
  case False
  have "\<lceil>real_of_int e / 3\<rceil> = - \<lfloor>real_of_int (- e) / 3\<rfloor>"
    by (simp add: ceiling_def)
  also have "\<dots> = - ((- e) div 3)"
    by (simp only: floor_div3)
  finally show ?thesis using False
    by (simp add: py_int_def)
qed

lemma apex_cap_pix:
  assumes "0 \<le> inf_limit_lv" "z < size_z label_lv_myo"
  shows "img_pix (apex_cap label_lv_myo inf_limit_lv) (z, y, x) =
           (if z < inf_limit_lv then img_pix label_lv_myo (z, y, x) else 0)"
  using assms by (auto simp: apex_cap_def zero_from_def img_scale_def slice_bound_def size_z_def)

text \<open>
  C6, as stated: the third is the floor quotient \<open>(mv_coord - inf_limit) // 3\<close>. The
  source truncates the real quotient toward zero; with the limits 10 and 9 the third is
  0, the floor quotient is -1.
\<close>

theorem third_is_not_floor_division: "dc (axial_bands 10 9) \<noteq> (9 - 10) div 3"
  by (simp add: axial_bands_def py_int_div3)

text \<open>
  C6, amended: the third is the quotient truncated toward zero, which is the floor
  quotient whenever the mitral-valve coordinate is not below the lower limit. The loops
  visit the slices \<open>[inf_limit, inf_limit + third)\<close>, \<open>[inf_limit + third, inf_limit +
  2 * third)\<close> and \<open>[inf_limit + 2 * third, mv_coord)\<close>, and the apex cap keeps the voxels
  of the slices below the lower limit.
\<close>

theorem axial_bands_thirds:
  fixes inf_limit_lv com_mv :: int
  defines "third \<equiv> dc (axial_bands inf_limit_lv com_mv)"
  shows "third = (if inf_limit_lv \<le> com_mv then (com_mv - inf_limit_lv) div 3
                  else - ((inf_limit_lv - com_mv) div 3)) \<and>
         set (apical_slices inf_limit_lv com_mv) = {inf_limit_lv ..< inf_limit_lv + third} \<and>
         set (mid_slices inf_limit_lv com_mv) = {inf_limit_lv + third ..< inf_limit_lv + 2 * third} \<and>
         set (basal_slices inf_limit_lv com_mv) = {inf_limit_lv + 2 * third ..< com_mv} \<and>
         (0 \<le> inf_limit_lv \<and> z < size_z label_lv_myo \<longrightarrow>
            img_pix (apex_cap label_lv_myo inf_limit_lv) (z, y, x) =
              (if z < inf_limit_lv then img_pix label_lv_myo (z, y, x) else 0))"
  using apex_cap_pix[of inf_limit_lv z label_lv_myo y x]
  by (auto simp: third_def axial_bands_def py_int_div3 apical_slices_def mid_slices_def
      basal_slices_def py_range_def Let_def)

theorem axial_bands_thirds_witness:
  "dc (axial_bands 2 26) = 8 \<and>
   set (apical_slices 2 26) = {2 ..< 10} \<and>
   set (mid_slices 2 26) = {10 ..< 18} \<and>
   set (basal_slices 2 26) = {18 ..< 26} \<and>
   img_pix (apex_cap block_lv 2) (1, 0, 0) = 1 \<and>
   img_pix (apex_cap block_lv 2) (2, 0, 0) = 0"
  using axial_bands_thirds[where inf_limit_lv = 2 and com_mv = 26 and z = 1 and label_lv_myo = block_lv and y = 0 and x = 0]
    axial_bands_thirds[where inf_limit_lv = 2 and com_mv = 26 and z = 2 and label_lv_myo = block_lv and y = 0 and x = 0]
  by (simp add: block_lv_def size_z_def)

section \<open>The input is never mutated\<close>

lemma keepsI:
  assumes "\<And>s. store_inv s0 s \<Longrightarrow> store_inv s0 (snd (m s))"
    and "\<And>s x. store_inv s0 s \<Longrightarrow> fst (m s) = Inr x \<Longrightarrow> R x"
  shows "keeps s0 m R"
  using assms unfolding keeps_def by blast

lemma keeps_return: "R x \<Longrightarrow> keeps s0 (returnM x) R"
  by (simp add: keeps_def returnM_def)

lemma keeps_raise: "keeps s0 (raiseM e) R"
  by (simp add: keeps_def raiseM_def)

lemma keeps_liftE: "keeps s0 (liftE r) (\<lambda>_. True)"
  by (simp add: keeps_def liftE_def)

lemma keeps_weaken: "keeps s0 m R \<Longrightarrow> (\<And>x. R x \<Longrightarrow> R' x) \<Longrightarrow> keeps s0 m R'"
  unfolding keeps_def by blast

lemma keeps_bind:
  assumes m: "keeps s0 m R" and f: "\<And>x. R x \<Longrightarrow> keeps s0 (f x) Q"
  shows "keeps s0 (bindM m f) Q"
  unfolding keeps_def
proof (intro allI impI)
  fix s assume i: "store_inv s0 s"
  obtain r s1 where ms: "m s = (r, s1)" by (cases "m s")
  from m i ms have i1: "store_inv s0 s1" and r: "\<And>x. r = Inr x \<Longrightarrow> R x"
    unfolding keeps_def by (force, force)
  show "store_inv s0 (snd (bindM m f s)) \<and> (\<forall>x. fst (bindM m f s) = Inr x \<longrightarrow> Q x)"
  proof (cases r)
    case (Inl e)
    with ms i1 show ?thesis by (simp add: bindM_def)
  next
    case (Inr x)
    with r have "keeps s0 (f x) Q" by (intro f) simp
    with i1 have "store_inv s0 (snd (f x s1)) \<and> (\<forall>y. fst (f x s1) = Inr y \<longrightarrow> Q y)"
      unfolding keeps_def by blast
    with ms Inr show ?thesis by (simp add: bindM_def)
  qed
qed

lemma inv_alloc_img: "store_inv s0 s \<Longrightarrow> store_inv s0 (s @ [Img i])"
  by (auto simp: store_inv_def unchanged_def fresh_dicts_def nth_append)

lemma inv_alloc_dict: "store_inv s0 s \<Longrightarrow> fresh_entries (length s0) m \<Longrightarrow> store_inv s0 (s @ [Dict m])"
  by (auto simp: store_inv_def unchanged_def fresh_dicts_def nth_append)

lemma keeps_alloc_img: "keeps s0 (alloc (Img i)) (\<lambda>a. length s0 \<le> a)"
  by (rule keepsI) (auto simp: alloc_def inv_alloc_img, simp add: store_inv_def unchanged_def)

lemma keeps_alloc_dict:
  "fresh_entries (length s0) m \<Longrightarrow> keeps s0 (alloc (Dict m)) (\<lambda>a. length s0 \<le> a)"
  by (rule keepsI) (auto simp: alloc_def inv_alloc_dict, simp add: store_inv_def unchanged_def)

lemma keeps_get_img: "keeps s0 (get_img a) (\<lambda>_. True)"
  by (rule keepsI) (auto simp: get_img_def split: obj.splits)

lemma keeps_get_dict: "keeps s0 (get_dict d) (\<lambda>_. True)"
  by (rule keepsI) (auto simp: get_dict_def split: obj.splits)

lemma keeps_get_dict_fresh:
  "length s0 \<le> d \<Longrightarrow> keeps s0 (get_dict d) (fresh_entries (length s0))"
  by (rule keepsI) (auto simp: get_dict_def store_inv_def fresh_dicts_def split: obj.splits if_splits)

lemma fresh_dicts_update:
  assumes "fresh_dicts b s" and "\<And>m. v = Dict m \<Longrightarrow> fresh_entries b m"
  shows "fresh_dicts b (s[a := v])"
  unfolding fresh_dicts_def
proof (intro allI impI)
  fix d m assume h: "b \<le> d \<and> d < length (s[a := v]) \<and> s[a := v] ! d = Dict m"
  show "fresh_entries b m"
  proof (cases "d = a")
    case True
    with h have "a < length s" "s[a := v] ! a = Dict m" by simp_all
    then have "v = Dict m" by simp
    then show ?thesis by (rule assms(2))
  next
    case False
    with h have "b \<le> d \<and> d < length s \<and> s ! d = Dict m" by simp
    with assms(1) show ?thesis unfolding fresh_dicts_def by blast
  qed
qed

lemma unchanged_update: "unchanged s0 s \<Longrightarrow> length s0 \<le> a \<Longrightarrow> unchanged s0 (s[a := v])"
  by (simp add: unchanged_def)

lemma inv_put_img: "store_inv s0 s \<Longrightarrow> length s0 \<le> a \<Longrightarrow> store_inv s0 (s[a := Img i])"
  unfolding store_inv_def by (intro conjI unchanged_update fresh_dicts_update) auto

lemma keeps_put_img: "length s0 \<le> a \<Longrightarrow> keeps s0 (put_img a i) (\<lambda>_. True)"
  by (rule keepsI) (auto simp: put_img_def inv_put_img)

lemma inv_put_dict:
  "store_inv s0 s \<Longrightarrow> length s0 \<le> d \<Longrightarrow> fresh_entries (length s0) m \<Longrightarrow> store_inv s0 (s[d := Dict m])"
  unfolding store_inv_def by (intro conjI unchanged_update fresh_dicts_update) auto

lemma fresh_entries_update:
  "fresh_entries b m \<Longrightarrow> b \<le> a \<Longrightarrow> fresh_entries b (AList.update k a m)"
  by (induction m) (auto simp: fresh_entries_def)

lemma fresh_entries_map_of: "fresh_entries b m \<Longrightarrow> map_of m k = Some a \<Longrightarrow> b \<le> a"
  by (induction m) (auto simp: fresh_entries_def split: if_splits)

lemma keeps_dict_get: "keeps s0 (dict_get d k) (\<lambda>_. True)"
  unfolding dict_get_def
  by (rule keeps_bind[OF keeps_get_dict]) (auto split: option.splits intro: keeps_raise keeps_return)

lemma keeps_dict_get_fresh: "length s0 \<le> d \<Longrightarrow> keeps s0 (dict_get d k) (\<lambda>a. length s0 \<le> a)"
  unfolding dict_get_def
  by (rule keeps_bind[OF keeps_get_dict_fresh])
     (auto split: option.splits intro: keeps_raise keeps_return dest: fresh_entries_map_of)

lemma keeps_dict_set:
  assumes "length s0 \<le> d" "length s0 \<le> a"
  shows "keeps s0 (dict_set d k a) (\<lambda>_. True)"
  unfolding dict_set_def
proof (rule keeps_bind[OF keeps_get_dict_fresh[OF assms(1)]])
  fix m assume "fresh_entries (length s0) m"
  then have "fresh_entries (length s0) (AList.update k a m)"
    using assms(2) by (rule fresh_entries_update)
  then show "keeps s0 (\<lambda>s. (Inr (), s[d := Dict (AList.update k a m)])) (\<lambda>_. True)"
    using assms(1) by (intro keepsI) (simp_all add: inv_put_dict)
qed

lemma keeps_read_img: "keeps s0 (read_img d k) (\<lambda>_. True)"
  unfolding read_img_def by (rule keeps_bind[OF keeps_dict_get]) (rule keeps_get_img)

lemma keeps_bind_new: "length s0 \<le> d \<Longrightarrow> keeps s0 (bind_new d k i) (\<lambda>_. True)"
  unfolding bind_new_def by (rule keeps_bind[OF keeps_alloc_img]) (rule keeps_dict_set)

lemma keeps_modify_img: "length s0 \<le> a \<Longrightarrow> keeps s0 (modify_img a f) (\<lambda>_. True)"
  unfolding modify_img_def by (rule keeps_bind[OF keeps_get_img]) (rule keeps_put_img)

lemma keeps_forM: "(\<And>x. keeps s0 (body x) (\<lambda>_. True)) \<Longrightarrow> keeps s0 (forM xs body) (\<lambda>_. True)"
  by (induction xs) (auto intro: keeps_return keeps_bind)

lemma keeps_mapM: "(\<And>x. keeps s0 (f x) R) \<Longrightarrow> keeps s0 (mapM f xs) (list_all R)"
proof (induction xs)
  case Nil
  show ?case by (simp add: keeps_return)
next
  case (Cons x xs)
  show ?case
    unfolding mapM.simps
  proof (rule keeps_bind[OF Cons.prems])
    fix y assume y: "R y"
    show "keeps s0 (bindM (mapM f xs) (\<lambda>ys. returnM (y # ys))) (list_all R)"
      by (rule keeps_bind[OF Cons.IH[OF Cons.prems]]) (simp add: keeps_return y)
  qed
qed

lemma keeps_copy_entry: "keeps s0 (copy_entry ka) (\<lambda>ka. length s0 \<le> snd ka)"
  unfolding copy_entry_def
  by (cases ka) (auto intro!: keeps_bind[OF keeps_get_img] keeps_bind[OF keeps_alloc_img] keeps_return)

lemma keeps_deepcopy: "keeps s0 (deepcopy d) (\<lambda>a. length s0 \<le> a)"
  unfolding deepcopy_def
  by (intro keeps_bind[OF keeps_get_dict] keeps_bind[OF keeps_mapM[OF keeps_copy_entry]])
     (simp add: keeps_alloc_dict fresh_entries_def)

lemma keeps_crop_all:
  "length s0 \<le> wc \<Longrightarrow> keeps s0 (crop_all P contours wc cb_size cb_index) (\<lambda>_. True)"
  unfolding crop_all_def
  by (intro keeps_bind[OF keeps_get_dict] keeps_forM keeps_bind[OF keeps_read_img]
      keeps_bind[OF keeps_liftE] keeps_bind_new)

lemma keeps_resample_all:
  "length s0 \<le> wc \<Longrightarrow> keeps s0 (resample_all P contours wc t) (\<lambda>_. True)"
  unfolding resample_all_def
  by (intro keeps_bind[OF keeps_get_dict] keeps_forM keeps_bind[OF keeps_read_img]
      keeps_bind[OF keeps_liftE] keeps_bind_new)

lemma keeps_preparation:
  "length s0 \<le> wc \<Longrightarrow> keeps s0 (preparation P cfg contours wc) (\<lambda>_. True)"
  unfolding preparation_def
  by (intro keeps_bind[OF keeps_read_img] keeps_bind[OF keeps_liftE] keeps_bind[OF keeps_crop_all]
      keeps_return) simp_all

lemma keeps_initial_alignment:
  "length s0 \<le> wc \<Longrightarrow> keeps s0 (initial_alignment P cfg contours wc) (\<lambda>_. True)"
  unfolding initial_alignment_def Let_def
  by (intro keeps_bind[OF keeps_read_img] keeps_bind[OF keeps_liftE]
      keeps_bind[OF keeps_resample_all] keeps_return) simp_all

lemma keeps_refine_step:
  "length s0 \<le> wc \<Longrightarrow> keeps s0 (refine_step P cfg contours wc) (\<lambda>_. True)"
  unfolding refine_step_def Let_def
  by (intro keeps_bind[OF keeps_read_img] keeps_bind[OF keeps_liftE]
      keeps_bind[OF keeps_resample_all] keeps_return) simp_all

lemma refine_loop_exit:
  "\<not> (n < optimiser_max_iter cfg \<and> \<bar>a\<bar> > optimiser_tol_radians cfg) \<Longrightarrow>
     refine_loop P cfg contours wc n a ts s = (Inr (n, a, ts), s)"
  by (subst refine_loop.simps) auto

lemma refine_loop_step:
  "n < optimiser_max_iter cfg \<and> \<bar>a\<bar> > optimiser_tol_radians cfg \<Longrightarrow>
     refine_loop P cfg contours wc n a ts s =
       (case refine_step P cfg contours wc s of
          (Inl e, s') \<Rightarrow> (Inl e, s')
        | (Inr r, s') \<Rightarrow> refine_loop P cfg contours wc (n + 1) (fst r) (ts @ [snd r]) s')"
  by (subst refine_loop.simps) auto

lemma inv_refine_loop:
  "length s0 \<le> wc \<Longrightarrow> store_inv s0 s \<Longrightarrow> store_inv s0 (snd (refine_loop P cfg contours wc n a ts s))"
proof (induction P cfg contours wc n a ts s rule: refine_loop.induct)
  case (1 P cfg contours wc n a ts s)
  show ?case
  proof (cases "n < optimiser_max_iter cfg \<and> \<bar>a\<bar> > optimiser_tol_radians cfg")
    case False
    with "1.prems" show ?thesis by (simp add: refine_loop_exit)
  next
    case True
    obtain r s1 where st: "refine_step P cfg contours wc s = (r, s1)"
      by (cases "refine_step P cfg contours wc s")
    have i1: "store_inv s0 s1"
      using keeps_refine_step[OF "1.prems"(1), of P cfg contours] "1.prems"(2) st
      unfolding keeps_def by force
    show ?thesis
    proof (cases r)
      case (Inl e)
      with True st i1 show ?thesis
        by (simp add: refine_loop_step)
    next
      case (Inr x)
      have "store_inv s0 (snd (refine_loop P cfg contours wc (n + 1) (fst x) (ts @ [snd x]) s1))"
        using "1.IH" True st Inr "1.prems"(1) i1 by auto
      with True st Inr show ?thesis
        by (simp add: refine_loop_step)
    qed
  qed
qed

lemma keeps_refine_loop:
  "length s0 \<le> wc \<Longrightarrow> keeps s0 (refine_loop P cfg contours wc n a ts) (\<lambda>_. True)"
  by (rule keepsI) (simp_all add: inv_refine_loop)

lemma keeps_axis_aligner:
  "length s0 \<le> wc \<Longrightarrow> keeps s0 (axis_aligner P cfg contours wc) (\<lambda>_. True)"
  unfolding axis_aligner_def
  by (intro keeps_bind[OF keeps_initial_alignment] keeps_refine_loop)

lemma keeps_module3:
  "keeps s0 (module3 P cfg wc erode_img) (\<lambda>r. length s0 \<le> snd (snd (snd r)))"
  unfolding module3_def Let_def
  by (intro keeps_bind[OF keeps_read_img] keeps_bind[OF keeps_liftE]
      keeps_bind[OF keeps_alloc_img] keeps_bind[OF keeps_modify_img] keeps_return) simp_all

lemma keeps_write_slice:
  "length s0 \<le> wc \<Longrightarrow> keeps s0 (write_slice wc k n sl) (\<lambda>_. True)"
  unfolding write_slice_def
  by (intro keeps_bind[OF keeps_dict_get_fresh] keeps_bind[OF keeps_get_img]
      keeps_bind[OF keeps_liftE] keeps_put_img)

lemma keeps_assign_slice:
  "length s0 \<le> wc \<Longrightarrow> keeps s0 (assign_slice P wc myo segments n) (\<lambda>_. True)"
  unfolding assign_slice_def
  by (intro keeps_bind[OF keeps_liftE] keeps_forM keeps_write_slice)

lemma keeps_module4:
  "length s0 \<le> wc \<Longrightarrow> length s0 \<le> apex \<Longrightarrow>
     keeps s0 (module4 P cfg wc myo inf_limit_lv com_mv apex) (\<lambda>_. True)"
  unfolding module4_def assign_segments_def
  by (intro keeps_bind[OF keeps_read_img] keeps_bind[OF keeps_liftE] keeps_bind[OF keeps_forM]
      keeps_bind[OF keeps_dict_set] keeps_forM keeps_bind_new keeps_assign_slice)

lemma keeps_module5:
  "length s0 \<le> out \<Longrightarrow>
     keeps s0 (module5 P cfg contours wc out ts hole_fill_img cb_index) (\<lambda>a. length s0 \<le> a)"
  unfolding module5_def Let_def
  by (intro keeps_bind[OF keeps_forM] keeps_bind[OF keeps_read_img] keeps_bind[OF keeps_liftE]
      keeps_bind_new keeps_return)

lemma keeps_generate:
  "keeps s0 (generate_left_ventricle_segments P cfg contours) (\<lambda>a. length s0 \<le> a)"
  unfolding generate_left_ventricle_segments_def
  by (intro keeps_bind[OF keeps_deepcopy] keeps_bind[OF keeps_alloc_dict]
      keeps_bind[OF keeps_preparation] keeps_bind[OF keeps_axis_aligner]
      keeps_bind[OF keeps_module3] keeps_bind[OF keeps_module4] keeps_module5)
     (simp_all add: fresh_entries_def)

lemma inv_initial: "store_inv s s"
  by (auto simp: store_inv_def unchanged_def fresh_dicts_def)

text \<open>
  C9. The pipeline never changes an object of the store it is called in. Whatever the
  outcome, the store it leaves agrees with the initial store at every initial address:
  the input dictionary and each input image, voxels and geometry alike. The result is a
  new address, and every dictionary allocated during the call, the returned one among
  them, holds only addresses allocated during the call.
\<close>

theorem input_never_mutated:
  fixes P :: collab and cfg :: config and contours :: nat and s :: store
  defines "s' \<equiv> snd (generate_left_ventricle_segments P cfg contours s)"
  shows "take (length s) s' = s \<and> length s \<le> length s' \<and>
         (\<forall>out. fst (generate_left_ventricle_segments P cfg contours s) = Inr out \<longrightarrow> length s \<le> out) \<and>
         (\<forall>d m. length s \<le> d \<and> d < length s' \<and> s' ! d = Dict m \<longrightarrow>
                  list_all (\<lambda>ka. length s \<le> snd ka) m)"
  using keeps_generate[of s P cfg contours] inv_initial[of s]
  unfolding keeps_def store_inv_def unchanged_def fresh_dicts_def fresh_entries_def s'_def
  by blast

section \<open>Evaluation on concrete stores\<close>

lemmas monad_defs = bindM_def returnM_def raiseM_def liftE_def alloc_def get_img_def get_dict_def
  put_img_def modify_img_def dict_get_def dict_set_def read_img_def bind_new_def

lemma voxels_block: "voxels_of_mm mm (img_spacing block_lv) = Inr (py_int mm, py_int mm, py_int mm)"
  by (simp add: voxels_of_mm_def block_lv_def)

section \<open>The aligner\<close>

lemma get_dict_store: "snd (get_dict d s) = s"
  by (simp add: get_dict_def split: obj.splits)

lemma get_img_store: "snd (get_img a s) = s"
  by (simp add: get_img_def split: obj.splits)

lemma dict_get_store: "snd (dict_get d k s) = s"
  by (auto simp: dict_get_def bindM_def get_dict_def raiseM_def returnM_def split: obj.splits option.splits)

lemma read_img_store: "snd (read_img d k s) = s"
proof -
  obtain r s1 where d: "dict_get d k s = (r, s1)" by (cases "dict_get d k s")
  with dict_get_store[of d k s] have "s1 = s" by simp
  with d show ?thesis
    by (cases r) (simp_all add: read_img_def bindM_def get_img_store)
qed

lemma read_img_eq: "read_img d k s = (fst (read_img d k s), s)"
  using read_img_store[of d k s] by (cases "read_img d k s") simp

text \<open>
  C8. With \<open>optimiser_max_iter = 0\<close> the aligner is the initial alignment alone: it ends as
  the initial alignment ends, with the same store, after zero passes of the loop and with
  a transform list that holds the initial transform only.
\<close>

theorem max_iter_zero_only_initial_alignment:
  assumes "optimiser_max_iter cfg = 0"
  shows "axis_aligner P cfg contours working_contours s =
           (case initial_alignment P cfg contours working_contours s of
              (Inl e, s') \<Rightarrow> (Inl e, s')
            | (Inr r, s') \<Rightarrow> (Inr (0, fst r, [snd r]), s'))"
  using assms
  by (simp add: axis_aligner_def bindM_def refine_loop_exit split: prod.splits sum.splits)

lemma initial_alignment_angle:
  assumes "initial_alignment P cfg contours wc s = (Inr r, s')"
  shows "\<exists>lv la ax.
           read_img wc (Name (label_left_ventricle cfg)) s = (Inr lv, s) \<and>
           read_img wc (Name (label_left_atrium cfg)) s = (Inr la, s) \<and>
           principal_axis P (img_gt0 (img_add lv la)) = Inr ax \<and>
           fst r = vector_angle P (vreverse (if snd (snd ax) < 0 then vscale (- 1) ax else ax)) (0, 0, 1)"
proof -
  let ?LV = "read_img wc (Name (label_left_ventricle cfg)) s"
  let ?LA = "read_img wc (Name (label_left_atrium cfg)) s"
  obtain lv where lv: "?LV = (Inr lv, s)"
    using assms read_img_eq[of wc "Name (label_left_ventricle cfg)" s]
    by (cases "fst ?LV") (auto simp: initial_alignment_def bindM_def)
  obtain la where la: "?LA = (Inr la, s)"
    using assms lv read_img_eq[of wc "Name (label_left_atrium cfg)" s]
    by (cases "fst ?LA") (auto simp: initial_alignment_def bindM_def)
  obtain ax where ax: "principal_axis P (img_gt0 (img_add lv la)) = Inr ax"
    using assms lv la
    by (cases "principal_axis P (img_gt0 (img_add lv la))")
       (auto simp: initial_alignment_def bindM_def liftE_def)
  have "fst r = vector_angle P (vreverse (if snd (snd ax) < 0 then vscale (- 1) ax else ax)) (0, 0, 1)"
    using assms lv la ax
    by (auto simp: initial_alignment_def bindM_def liftE_def returnM_def Let_def
        split: sum.splits prod.splits if_splits)
  with lv la ax show ?thesis by blast
qed

text \<open>
  C10. If the angle the initial alignment computes is within the tolerance, the loop makes
  no pass, whatever \<open>optimiser_max_iter\<close> is. The angle the first test of the guard sees
  is the one measured on the principal axis of the masks as they were before the initial
  rotation was applied to them.
\<close>

theorem aligned_within_tolerance_skips_refinement:
  assumes "initial_alignment P cfg contours working_contours s = (Inr r, s')"
    and "\<bar>fst r\<bar> \<le> optimiser_tol_radians cfg"
  shows "axis_aligner P cfg contours working_contours s = (Inr (0, fst r, [snd r]), s') \<and>
         (\<exists>lv la ax.
            read_img working_contours (Name (label_left_ventricle cfg)) s = (Inr lv, s) \<and>
            read_img working_contours (Name (label_left_atrium cfg)) s = (Inr la, s) \<and>
            principal_axis P (img_gt0 (img_add lv la)) = Inr ax \<and>
            fst r = vector_angle P (vreverse (if snd (snd ax) < 0 then vscale (- 1) ax else ax)) (0, 0, 1))"
  using assms initial_alignment_angle[OF assms(1)]
  by (simp add: axis_aligner_def bindM_def refine_loop_exit)

lemmas pipeline_defs = preparation_def crop_all_def resample_all_def initial_alignment_def
  axis_aligner_def module3_def generate_left_ventricle_segments_def deepcopy_def copy_entry_def
  default_config_def aligning_collab_def failing_collab_def vreverse_def cross_def vscale_def
  set_rotation_def

lemma initial_alignment_example:
  "initial_alignment (aligning_collab a) (default_config\<lparr>optimiser_max_iter := k\<rparr>) 0 1 aligner_store =
     (Inr (a, Rigid (0, 0, 0) (0, - 1, 0) a),
      [Dict [(Name ''LEFTVENTRICLE'', 2), (Name ''LEFTATRIUM'', 3)],
       Dict [(Name ''LEFTVENTRICLE'', 6), (Name ''LEFTATRIUM'', 7)],
       Img block_lv, Img block_lv, Img block_lv, Img block_lv, Img block_lv, Img block_lv])"
  by (simp add: pipeline_defs aligner_store_def monad_defs)

text \<open>
  The aligner on a concrete store: with no pass allowed and an initial angle of one
  radian, and with ten passes allowed and an initial angle of zero.
\<close>

theorem max_iter_zero_only_initial_alignment_witness:
  "optimiser_max_iter (default_config\<lparr>optimiser_max_iter := 0\<rparr>) = 0 \<and>
   fst (axis_aligner (aligning_collab 1) (default_config\<lparr>optimiser_max_iter := 0\<rparr>) 0 1 aligner_store)
     = Inr (0, 1, [Rigid (0, 0, 0) (0, - 1, 0) 1])"
  using max_iter_zero_only_initial_alignment[of "default_config\<lparr>optimiser_max_iter := 0\<rparr>"
      "aligning_collab 1" 0 1 aligner_store]
    initial_alignment_example[of 1 0]
  by simp

lemma tol_positive: "\<bar>0::real\<bar> \<le> optimiser_tol_radians default_config"
  by (simp add: optimiser_tol_radians_def default_config_def)

theorem aligned_within_tolerance_skips_refinement_witness:
  "0 < optimiser_max_iter default_config \<and>
   fst (axis_aligner (aligning_collab 0) default_config 0 1 aligner_store)
     = Inr (0, 0, [Rigid (0, 0, 0) (0, - 1, 0) 0])"
proof -
  have ia: "initial_alignment (aligning_collab 0) default_config 0 1 aligner_store =
     (Inr (0, Rigid (0, 0, 0) (0, - 1, 0) 0),
            [Dict [(Name ''LEFTVENTRICLE'', 2), (Name ''LEFTATRIUM'', 3)],
             Dict [(Name ''LEFTVENTRICLE'', 6), (Name ''LEFTATRIUM'', 7)],
             Img block_lv, Img block_lv, Img block_lv, Img block_lv, Img block_lv, Img block_lv])"
    using initial_alignment_example[of 0 10] by (simp add: default_config_def)
  have tol: "\<bar>fst (0::real, Rigid (0, 0, 0) (0, - 1, 0) 0)\<bar> \<le> optimiser_tol_radians default_config"
    using tol_positive by simp
  from aligned_within_tolerance_skips_refinement[OF ia tol]
  show ?thesis by (simp add: default_config_def)
qed

section \<open>Missing and empty masks\<close>



















lemma example_run:
  "fst (generate_left_ventricle_segments (aligning_collab 0) default_config 0 example_store)
     = Inl RuntimeError \<and>
   length (snd (generate_left_ventricle_segments (aligning_collab 0) default_config 0 example_store))
     = 15"
  by (simp add: pipeline_defs example_store_def monad_defs voxels_block refine_loop_exit
      optimiser_tol_radians_def)

theorem input_never_mutated_witness:
  "take 4 (snd (generate_left_ventricle_segments (aligning_collab 0) default_config 0 example_store))
     = example_store \<and>
   length (snd (generate_left_ventricle_segments (aligning_collab 0) default_config 0 example_store))
     = 15 \<and>
   fst (generate_left_ventricle_segments (aligning_collab 0) default_config 0 example_store)
     = Inl RuntimeError"
proof -
  have len: "length example_store = 4"
    by (simp add: example_store_def)
  have "take (length example_store)
          (snd (generate_left_ventricle_segments (aligning_collab 0) default_config 0 example_store))
        = example_store"
    using input_never_mutated[of example_store "aligning_collab 0" default_config 0]
    by (rule conjunct1)
  then show ?thesis
    unfolding len using example_run by simp
qed

end
